theory Spec2Isabelle
  imports Main "HOL-Library.AList"
begin

section \<open>Strings and thrown values\<close>

text \<open>
  A JavaScript string is a sequence of UTF-16 code units. A code unit is modelled as a
  natural number, so that the line terminators U+2028 and U+2029 and the \<open>\uXXXX\<close>
  escapes of JSON are ordinary values. \<open>js\<close> turns a literal into such a string.
\<close>

type_synonym jschar = nat
type_synonym jsstring = "jschar list"

definition js :: "string \<Rightarrow> jsstring" where
  "js s = map of_char s"

text \<open>
  A thrown \<open>Error\<close> object: its \<open>name\<close> and its \<open>message\<close>. The template
  \<open>`${error}`\<close> calls \<open>Error.prototype.toString\<close>, which joins the two with a colon
  and gives the name alone when the message is empty.
\<close>

datatype js_error = JsError (err_name: jsstring) (err_message: jsstring)

definition error_to_string :: "js_error \<Rightarrow> jsstring" where
  "error_to_string e =
     (if err_message e = [] then err_name e
      else if err_name e = [] then err_message e
      else err_name e @ js '': '' @ err_message e)"

definition new_Error :: "jsstring \<Rightarrow> js_error" where
  "new_Error m = JsError (js ''Error'') m"

text \<open>
  The errors the engine itself throws: the \<open>SyntaxError\<close> of \<open>JSON.parse\<close> on a text
  that is not JSON, the \<open>TypeError\<close> of reading a property of \<open>null\<close> or of
  \<open>undefined\<close>, and the \<open>TypeError\<close> of calling what is not a function. Their
  texts differ between engines and versions, so the engine is a parameter: the function
  from the fault to the error thrown.
\<close>

datatype fault =
    Bad_JSON jsstring
  | Read_of_null jsstring
  | Read_of_undefined jsstring
  | Not_a_function jsstring

type_synonym engine = "fault \<Rightarrow> js_error"

section \<open>JSON values and \<open>JSON.parse\<close>\<close>

text \<open>
  \<open>JNumber m e\<close> is the decimal \<open>m * 10 ^ e\<close> a number literal denotes (the engine
  rounds it to the nearest double; the sign of a zero is not kept). An object is the list
  of its own properties in creation order, with distinct keys.
\<close>

datatype json =
    JNull
  | JBool bool
  | JNumber int int
  | JString jsstring
  | JArray "json list"
  | JObject "(jsstring \<times> json) list"

datatype token =
    TLBrace | TRBrace | TLBracket | TRBracket | TComma | TColon
  | TScalar json

definition is_ws :: "jschar \<Rightarrow> bool" where
  "is_ws c \<longleftrightarrow> c = 32 \<or> c = 9 \<or> c = 10 \<or> c = 13"

definition is_digit :: "jschar \<Rightarrow> bool" where
  "is_digit c \<longleftrightarrow> 48 \<le> c \<and> c \<le> 57"

definition dec :: "jsstring \<Rightarrow> nat" where
  "dec ds = foldl (\<lambda>a c. 10 * a + (c - 48)) 0 ds"

definition hex_val :: "jschar \<Rightarrow> nat option" where
  "hex_val c =
     (if 48 \<le> c \<and> c \<le> 57 then Some (c - 48)
      else if 65 \<le> c \<and> c \<le> 70 then Some (c - 55)
      else if 97 \<le> c \<and> c \<le> 102 then Some (c - 87)
      else None)"

fun hex4 :: "jsstring \<Rightarrow> jschar option" where
  "hex4 (a # b # c # d # _) =
     (case (hex_val a, hex_val b, hex_val c, hex_val d) of
        (Some w, Some x, Some y, Some z) \<Rightarrow> Some (((w * 16 + x) * 16 + y) * 16 + z)
      | _ \<Rightarrow> None)"
| "hex4 _ = None"

text \<open>The single-character escapes: \<open>\" \\ \/ \b \f \n \r \t\<close>.\<close>

definition unescape :: "jschar \<Rightarrow> jschar option" where
  "unescape e =
     (if e = 34 \<or> e = 92 \<or> e = 47 then Some e
      else if e = 98 then Some 8
      else if e = 102 then Some 12
      else if e = 110 then Some 10
      else if e = 114 then Some 13
      else if e = 116 then Some 9
      else None)"

text \<open>
  The rest of a string literal after its opening quote: the decoded contents and the
  text after the closing quote. A raw control character (below U+0020) is an error.
\<close>

fun lex_string :: "jsstring \<Rightarrow> (jsstring \<times> jsstring) option" where
  "lex_string [] = None"
| "lex_string (c # cs) =
     (if c = 34 then Some ([], cs)
      else if c = 92 then
        (case cs of
           [] \<Rightarrow> None
         | e # cs' \<Rightarrow>
             if e = 117 then
               (case hex4 cs' of
                  None \<Rightarrow> None
                | Some u \<Rightarrow> map_option (apfst ((#) u)) (lex_string (drop 4 cs')))
             else
               (case unescape e of
                  None \<Rightarrow> None
                | Some d \<Rightarrow> map_option (apfst ((#) d)) (lex_string cs')))
      else if c < 32 then None
      else map_option (apfst ((#) c)) (lex_string cs))"

text \<open>An optional fraction: the digits after the point, and the rest.\<close>

definition lex_frac :: "jsstring \<Rightarrow> (jsstring \<times> jsstring) option" where
  "lex_frac s =
     (case s of
        [] \<Rightarrow> Some ([], s)
      | c # cs \<Rightarrow>
          if c = 46 then
            (if takeWhile is_digit cs = [] then None
             else Some (takeWhile is_digit cs, dropWhile is_digit cs))
          else Some ([], s))"

text \<open>An optional exponent: its value, and the rest.\<close>

definition lex_exp :: "jsstring \<Rightarrow> (int \<times> jsstring) option" where
  "lex_exp s =
     (case s of
        [] \<Rightarrow> Some (0, s)
      | c # cs \<Rightarrow>
          if c = 101 \<or> c = 69 then
            (let neg = (cs \<noteq> [] \<and> hd cs = 45);
                 ds = (if cs \<noteq> [] \<and> (hd cs = 45 \<or> hd cs = 43) then tl cs else cs)
             in if takeWhile is_digit ds = [] then None
                else Some ((if neg then - int (dec (takeWhile is_digit ds))
                            else int (dec (takeWhile is_digit ds))),
                           dropWhile is_digit ds))
          else Some (0, s))"

text \<open>The integer part: a single zero, or digits that do not start with a zero.\<close>

definition lex_int :: "jsstring \<Rightarrow> (jsstring \<times> jsstring) option" where
  "lex_int s =
     (case s of
        [] \<Rightarrow> None
      | d # ds \<Rightarrow>
          if \<not> is_digit d then None
          else if d = 48 then Some ([d], ds)
          else Some (d # takeWhile is_digit ds, dropWhile is_digit ds))"

definition lex_unsigned :: "jsstring \<Rightarrow> ((int \<times> int) \<times> jsstring) option" where
  "lex_unsigned s =
     (case lex_int s of
        None \<Rightarrow> None
      | Some (ip, s2) \<Rightarrow>
          (case lex_frac s2 of
             None \<Rightarrow> None
           | Some (fp, s3) \<Rightarrow>
               (case lex_exp s3 of
                  None \<Rightarrow> None
                | Some (ex, s4) \<Rightarrow>
                    Some ((int (dec (ip @ fp)), ex - int (length fp)), s4))))"

text \<open>
  A number literal: an optional minus, the integer part, an optional fraction and an
  optional exponent. Its value is the first component times ten to the second.
\<close>

definition lex_number :: "jsstring \<Rightarrow> ((int \<times> int) \<times> jsstring) option" where
  "lex_number s =
     (case s of
        [] \<Rightarrow> None
      | c # cs \<Rightarrow>
          if c = 45 then map_option (apfst (apfst uminus)) (lex_unsigned cs)
          else lex_unsigned s)"

function lex :: "jsstring \<Rightarrow> token list option" where
  "lex [] = Some []"
| "lex (c # cs) =
     (if is_ws c then lex cs
      else if c = 91 then map_option ((#) TLBracket) (lex cs)
      else if c = 93 then map_option ((#) TRBracket) (lex cs)
      else if c = 123 then map_option ((#) TLBrace) (lex cs)
      else if c = 125 then map_option ((#) TRBrace) (lex cs)
      else if c = 44 then map_option ((#) TComma) (lex cs)
      else if c = 58 then map_option ((#) TColon) (lex cs)
      else if c = 34 then
        (case lex_string cs of
           None \<Rightarrow> None
         | Some (s, r) \<Rightarrow> map_option ((#) (TScalar (JString s))) (lex r))
      else if c = 45 \<or> is_digit c then
        (case lex_number (c # cs) of
           None \<Rightarrow> None
         | Some ((m, e), r) \<Rightarrow> map_option ((#) (TScalar (JNumber m e))) (lex r))
      else if take 4 (c # cs) = js ''true'' then
        map_option ((#) (TScalar (JBool True))) (lex (drop 3 cs))
      else if take 5 (c # cs) = js ''false'' then
        map_option ((#) (TScalar (JBool False))) (lex (drop 4 cs))
      else if take 4 (c # cs) = js ''null'' then
        map_option ((#) (TScalar JNull)) (lex (drop 3 cs))
      else None)"
  by pat_completeness auto
termination
proof -
  have str: "length r < length s" if "lex_string s = Some (t, r)" for s t r
    using that
  proof (induction s arbitrary: t r rule: lex_string.induct)
    case 1
    then show ?case by simp
  next
    case (2 c cs)
    show ?case
    proof (cases "c = 34")
      case True
      with "2.prems" show ?thesis by simp
    next
      case notq: False
      show ?thesis
      proof (cases "c = 92")
        case True
        then obtain e cs' where cs: "cs = e # cs'"
          using "2.prems" by (cases cs) auto
        show ?thesis
        proof (cases "e = 117")
          case u: True
          then obtain v t' where h: "hex4 cs' = Some v"
            and l: "lex_string (drop 4 cs') = Some (t', r)"
            using "2.prems" True cs by (auto split: option.splits)
          from "2.IH"(1)[OF notq True cs u h l] have "length r < length (drop 4 cs')" .
          then show ?thesis using cs by simp
        next
          case nu: False
          then obtain d t' where h: "unescape e = Some d"
            and l: "lex_string cs' = Some (t', r)"
            using "2.prems" True cs by (auto split: option.splits)
          from "2.IH"(2)[OF notq True cs nu h l] have "length r < length cs'" .
          then show ?thesis using cs by simp
        qed
      next
        case False
        then obtain t' where l: "lex_string cs = Some (t', r)" and c32: "\<not> c < 32"
          using "2.prems" notq by (auto split: if_splits)
        from "2.IH"(3)[OF notq False c32 l] show ?thesis by simp
      qed
    qed
  qed
  have frac: "length r \<le> length s" if "lex_frac s = Some (fp, r)" for s fp r
    using that
    by (auto simp: lex_frac_def split: list.splits if_splits
        intro: le_SucI length_dropWhile_le)
  have tl_le: "length (dropWhile is_digit (tl cs)) \<le> length cs" for cs :: jsstring
    using length_dropWhile_le[of is_digit "tl cs"] by simp
  have exp: "length r \<le> length s" if "lex_exp s = Some (ex, r)" for s ex r
    using that
    by (auto simp: lex_exp_def Let_def split: list.splits if_splits
        intro: le_SucI length_dropWhile_le tl_le)
  have int: "length r < length s" if "lex_int s = Some (ip, r)" for s ip r
    using that
    by (auto simp: lex_int_def split: list.splits if_splits
        intro: le_imp_less_Suc length_dropWhile_le)
  have uns: "length r < length s" if "lex_unsigned s = Some (n, r)" for s n r
  proof -
    from that obtain ip s2 fp s3 ex where i: "lex_int s = Some (ip, s2)"
      and f: "lex_frac s2 = Some (fp, s3)" and e: "lex_exp s3 = Some (ex, r)"
      by (auto simp: lex_unsigned_def split: option.splits)
    have "length r \<le> length s3" using exp[OF e] .
    also have "\<dots> \<le> length s2" using frac[OF f] .
    also have "\<dots> < length s" using int[OF i] .
    finally show ?thesis .
  qed
  have num: "length r < length s" if "lex_number s = Some (n, r)" for s n r
    using that
    by (auto simp: lex_number_def split: list.splits if_splits
        dest: uns intro: less_SucI)
  show ?thesis
    by (relation "measure length") (auto dest: str num intro: less_SucI)
qed

text \<open>
  The parser is a pushdown automaton over the tokens. A frame is a container being
  read: an array with its elements so far, an object with its members so far, or an
  object member whose key has been read.
\<close>

datatype frame =
    InArray "json list"
  | InObject "(jsstring \<times> json) list"
  | InMember "(jsstring \<times> json) list" jsstring

datatype expect = Value | ValueOrClose | KeyOrClose | Key | Colon | CommaOrClose

datatype pstate = Parsing expect "frame list" | Finished json

text \<open>
  A value is complete: it is the result, an element of the enclosing array, or the
  value of the pending member (a repeated key overwrites the earlier value).
\<close>

fun complete :: "json \<Rightarrow> frame list \<Rightarrow> pstate option" where
  "complete v [] = Some (Finished v)"
| "complete v (InArray es # fs) = Some (Parsing CommaOrClose (InArray (es @ [v]) # fs))"
| "complete v (InMember ms k # fs) =
     Some (Parsing CommaOrClose (InObject (AList.update k v ms) # fs))"
| "complete v (InObject ms # fs) = None"

fun value_token :: "token \<Rightarrow> frame list \<Rightarrow> pstate option" where
  "value_token (TScalar v) fs = complete v fs"
| "value_token TLBracket fs = Some (Parsing ValueOrClose (InArray [] # fs))"
| "value_token TLBrace fs = Some (Parsing KeyOrClose (InObject [] # fs))"
| "value_token _ fs = None"

fun key_token :: "token \<Rightarrow> frame list \<Rightarrow> pstate option" where
  "key_token (TScalar (JString k)) (InObject ms # fs) = Some (Parsing Colon (InMember ms k # fs))"
| "key_token _ _ = None"

fun close_array :: "frame list \<Rightarrow> pstate option" where
  "close_array (InArray es # fs) = complete (JArray es) fs"
| "close_array _ = None"

fun close_object :: "frame list \<Rightarrow> pstate option" where
  "close_object (InObject ms # fs) = complete (JObject ms) fs"
| "close_object _ = None"

fun step :: "pstate \<Rightarrow> token \<Rightarrow> pstate option" where
  "step (Finished v) t = None"
| "step (Parsing Value fs) t = value_token t fs"
| "step (Parsing ValueOrClose fs) t =
     (if t = TRBracket then close_array fs else value_token t fs)"
| "step (Parsing KeyOrClose fs) t =
     (if t = TRBrace then close_object fs else key_token t fs)"
| "step (Parsing Key fs) t = key_token t fs"
| "step (Parsing Colon fs) t = (if t = TColon then Some (Parsing Value fs) else None)"
| "step (Parsing CommaOrClose fs) t =
     (case fs of
        InArray es # _ \<Rightarrow>
          if t = TComma then Some (Parsing Value fs)
          else if t = TRBracket then close_array fs
          else None
      | InObject ms # _ \<Rightarrow>
          if t = TComma then Some (Parsing Key fs)
          else if t = TRBrace then close_object fs
          else None
      | _ \<Rightarrow> None)"

fun run :: "pstate \<Rightarrow> token list \<Rightarrow> pstate option" where
  "run st [] = Some st"
| "run st (t # ts) = (case step st t of None \<Rightarrow> None | Some st' \<Rightarrow> run st' ts)"

text \<open>
  \<open>JSON.parse\<close>: the value, or \<open>None\<close> where the engine throws the \<open>SyntaxError\<close>
  of \<open>Bad_JSON\<close>.
\<close>

definition JSON_parse :: "jsstring \<Rightarrow> json option" where
  "JSON_parse s =
     (case lex s of
        None \<Rightarrow> None
      | Some ts \<Rightarrow>
          (case run (Parsing Value []) ts of
             Some (Finished v) \<Rightarrow> Some v
           | _ \<Rightarrow> None))"

section \<open>The judge's data\<close>

record TestCase =
  input :: jsstring
  expectedOutput :: jsstring
  explanation :: jsstring

text \<open>
  \<open>results\<close> is declared \<open>ExecutionResult[]\<close>, but it holds whatever \<open>JSON.parse\<close>
  returned: the type is erased and nothing checks the entries. The model keeps the
  entries as JSON values. \<open>overallError\<close> is optional.
\<close>

record JudgeResult =
  success :: bool
  totalTests :: nat
  passedTests :: nat
  results :: "json list"
  overallError :: "jsstring option"

section \<open>The result parser\<close>

text \<open>
  \<open>output.match(/JUDGE_RESULT:(.+)/)\<close>: the first place in the text where the prefix
  is followed by at least one character that is not a line terminator; the capture is
  the run of such characters (the rest of that line). \<open>None\<close> is the \<open>null\<close> of no
  match.
\<close>

definition is_line_terminator :: "jschar \<Rightarrow> bool" where
  "is_line_terminator c \<longleftrightarrow> c = 10 \<or> c = 13 \<or> c = 8232 \<or> c = 8233"

fun judgeResultMatch :: "jsstring \<Rightarrow> jsstring option" where
  "judgeResultMatch [] = None"
| "judgeResultMatch (c # cs) =
     (if take 13 (c # cs) = js ''JUDGE_RESULT:''
         \<and> takeWhile (\<lambda>x. \<not> is_line_terminator x) (drop 13 (c # cs)) \<noteq> []
      then Some (takeWhile (\<lambda>x. \<not> is_line_terminator x) (drop 13 (c # cs)))
      else judgeResultMatch cs)"

text \<open>
  The value of the property \<open>passed\<close> of an entry that is not \<open>null\<close>: the member's
  value on an object that has it, and \<open>undefined\<close> (\<open>None\<close>) otherwise. Reading it on
  \<open>null\<close> throws.
\<close>

fun passed_of :: "json \<Rightarrow> json option" where
  "passed_of (JObject ms) = map_of ms (js ''passed'')"
| "passed_of _ = None"

definition get_passed :: "engine \<Rightarrow> json \<Rightarrow> js_error + json option" where
  "get_passed eng r =
     (if r = JNull then Inl (eng (Read_of_null (js ''passed''))) else Inr (passed_of r))"

text \<open>
  A number is falsy when it is a zero. The double nearest to \<open>m * 10 ^ e\<close> is a zero
  exactly when the magnitude is at most \<open>2 ^ -1075\<close>, half the least positive double.
\<close>

definition number_is_zero :: "int \<Rightarrow> int \<Rightarrow> bool" where
  "number_is_zero m e \<longleftrightarrow>
     (if m = 0 then True
      else if 0 \<le> e then False
      else \<bar>m\<bar> * 2 ^ 1075 \<le> 10 ^ nat (- e))"

fun truthy :: "json option \<Rightarrow> bool" where
  "truthy None = False"
| "truthy (Some JNull) = False"
| "truthy (Some (JBool b)) = b"
| "truthy (Some (JNumber m e)) = (\<not> number_is_zero m e)"
| "truthy (Some (JString s)) = (s \<noteq> [])"
| "truthy (Some (JArray es)) = True"
| "truthy (Some (JObject ms)) = True"

text \<open>\<open>results.filter(r => r.passed)\<close> on an array; the callback may throw.\<close>

fun filter_passed :: "engine \<Rightarrow> json list \<Rightarrow> js_error + json list" where
  "filter_passed eng [] = Inr []"
| "filter_passed eng (r # rs) =
     (case get_passed eng r of
        Inl e \<Rightarrow> Inl e
      | Inr p \<Rightarrow>
          (case filter_passed eng rs of
             Inl e \<Rightarrow> Inl e
           | Inr ks \<Rightarrow> Inr (if truthy p then r # ks else ks)))"

text \<open>
  The body of the \<open>try\<close> block of \<open>parseJudgeOutput\<close>, in the engine \<open>eng\<close>. Reading
  \<open>filter\<close> on a parsed \<open>null\<close> throws, and so does calling \<open>filter\<close> on any other
  parsed value that is not an array.
\<close>

definition parseJudgeOutput_try ::
  "engine \<Rightarrow> jsstring \<Rightarrow> TestCase list \<Rightarrow> js_error + JudgeResult" where
  "parseJudgeOutput_try eng output testCases =
     (case judgeResultMatch output of
        None \<Rightarrow> Inl (new_Error (js ''No judge result found in output''))
      | Some payload \<Rightarrow>
          (case JSON_parse payload of
             None \<Rightarrow> Inl (eng (Bad_JSON payload))
           | Some JNull \<Rightarrow> Inl (eng (Read_of_null (js ''filter'')))
           | Some (JArray rs) \<Rightarrow>
               (case filter_passed eng rs of
                  Inl e \<Rightarrow> Inl e
                | Inr ks \<Rightarrow>
                    Inr \<lparr> success = True,
                          totalTests = length testCases,
                          passedTests = length ks,
                          results = rs,
                          overallError = None \<rparr>)
           | Some _ \<Rightarrow> Inl (eng (Not_a_function (js ''results.filter'')))))"

definition parseJudgeOutput :: "engine \<Rightarrow> jsstring \<Rightarrow> TestCase list \<Rightarrow> JudgeResult" where
  "parseJudgeOutput eng output testCases =
     (case parseJudgeOutput_try eng output testCases of
        Inr r \<Rightarrow> r
      | Inl error \<Rightarrow>
          \<lparr> success = False,
            totalTests = length testCases,
            passedTests = 0,
            results = [],
            overallError = Some (js ''Failed to parse results: '' @ error_to_string error) \<rparr>)"

section \<open>The platform\<close>

text \<open>
  The generated program is a fixed template around the user's code and the serialised
  test cases; it is kept as these two parts, tagged with the template that wraps them.
\<close>

datatype program =
    JsHarness jsstring "TestCase list"
  | PyHarness jsstring "TestCase list"
  | CppHarness jsstring "TestCase list"

datatype filedata = Generated program | Other

text \<open>
  What a spawned child process does, as the handlers of the runner see it: the event
  that settles the promise, the text written to both streams, and the files it leaves
  behind. The event is \<open>close\<close> with the exit code, which is \<open>null\<close> when a signal
  killed the child; or \<open>error\<close> when the child could not be spawned; or neither event
  ever comes (\<open>Silent\<close>). The \<open>timeout\<close> option of \<open>spawn\<close> sends the child one
  \<open>SIGTERM\<close> when the time is over and does nothing more: a child that ignores the
  signal, or one whose output streams a descendant keeps open, never delivers \<open>close\<close>.
\<close>

datatype settle = Closed "int option" | Errored js_error | Silent

record outcome =
  settled :: settle
  stdout :: jsstring
  stderr :: jsstring
  files_after :: "jsstring \<rightharpoonup> filedata"

text \<open>
  The world an invocation runs in: the files on disk, the readings of the clock
  (\<open>clock w k\<close> is what the \<open>k\<close>-th call of \<open>Date.now()\<close> returns), the processes
  spawned so far, the directory of \<open>os.tmpdir()\<close>, what the operating system answers
  to each request (\<open>None\<close>: no error; \<open>no_such_file\<close> is its error for a path that
  does not exist), what a spawned child does, and the engine the server runs on.
\<close>

record world =
  files :: "jsstring \<rightharpoonup> filedata"
  clock :: "nat \<Rightarrow> nat"
  reads :: nat
  spawned :: "(jsstring \<times> jsstring list) list"
  tmpdir :: jsstring
  mkdir_error :: "jsstring \<Rightarrow> js_error option"
  writeFile_error :: "jsstring \<Rightarrow> js_error option"
  unlink_error :: "jsstring \<Rightarrow> js_error option"
  no_such_file :: "jsstring \<Rightarrow> js_error"
  spawn_outcome :: "jsstring \<Rightarrow> jsstring list \<Rightarrow> (jsstring \<rightharpoonup> filedata) \<Rightarrow> outcome"
  js_engine :: engine

text \<open>
  What awaiting a promise gives: the value it resolved to, the error it rejected with,
  or nothing, when it never settles and the \<open>await\<close> never continues.
\<close>

datatype 'a awaited = Resolved 'a | Rejected js_error | Pending

definition Date_now :: "world \<Rightarrow> nat \<times> world" where
  "Date_now w = (clock w (reads w), w\<lparr>reads := Suc (reads w)\<rparr>)"

text \<open>The calls of \<open>fs/promises\<close> settle: \<open>Inr\<close> resolved, \<open>Inl\<close> rejected.\<close>

definition mkdir :: "jsstring \<Rightarrow> world \<Rightarrow> (js_error + unit) \<times> world" where
  "mkdir p w = (case mkdir_error w p of Some e \<Rightarrow> (Inl e, w) | None \<Rightarrow> (Inr (), w))"

definition writeFile :: "jsstring \<Rightarrow> filedata \<Rightarrow> world \<Rightarrow> (js_error + unit) \<times> world" where
  "writeFile p f w =
     (case writeFile_error w p of
        Some e \<Rightarrow> (Inl e, w)
      | None \<Rightarrow> (Inr (), w\<lparr>files := (files w)(p \<mapsto> f)\<rparr>))"

definition unlink :: "jsstring \<Rightarrow> world \<Rightarrow> (js_error + unit) \<times> world" where
  "unlink p w =
     (if files w p = None then (Inl (no_such_file w p), w)
      else (case unlink_error w p of
              Some e \<Rightarrow> (Inl e, w)
            | None \<Rightarrow> (Inr (), w\<lparr>files := (files w)(p := None)\<rparr>)))"

definition spawn :: "jsstring \<Rightarrow> jsstring list \<Rightarrow> world \<Rightarrow> outcome \<times> world" where
  "spawn cmd args w =
     (let out = spawn_outcome w cmd args (files w)
      in (out, w\<lparr>files := files_after out, spawned := spawned w @ [(cmd, args)]\<rparr>))"

text \<open>\<open>path.join\<close> of a normalised directory and a name without separators.\<close>

definition join :: "jsstring \<Rightarrow> jsstring \<Rightarrow> jsstring" where
  "join dir name = dir @ js ''/'' @ name"

text \<open>A number in a template: its decimal digits.\<close>

fun nat_to_string :: "nat \<Rightarrow> jsstring" where
  "nat_to_string n =
     (if n < 10 then [48 + n] else nat_to_string (n div 10) @ [48 + n mod 10])"

declare nat_to_string.simps [simp del]

definition code_to_string :: "int option \<Rightarrow> jsstring" where
  "code_to_string code =
     (case code of
        None \<Rightarrow> js ''null''
      | Some i \<Rightarrow> if i < 0 then 45 # nat_to_string (nat (- i)) else nat_to_string (nat i))"

section \<open>The executor\<close>

definition tempDir :: "world \<Rightarrow> jsstring" where
  "tempDir w = join (tmpdir w) (js ''coding-judge'')"

text \<open>
  The functions of the executor return what awaiting them gives, and the world they
  leave.
\<close>

definition ensureTempDir :: "world \<Rightarrow> unit awaited \<times> world" where
  "ensureTempDir w =
     (case mkdir (tempDir w) w of
        (Inr u, w') \<Rightarrow> (Resolved (), w')
      | (Inl error, w') \<Rightarrow> (Resolved (), w'))"

definition wrapJavaScriptCode :: "jsstring \<Rightarrow> TestCase list \<Rightarrow> filedata" where
  "wrapJavaScriptCode userCode testCases = Generated (JsHarness userCode testCases)"

definition wrapPythonCode :: "jsstring \<Rightarrow> TestCase list \<Rightarrow> filedata" where
  "wrapPythonCode userCode testCases = Generated (PyHarness userCode testCases)"

definition wrapCppCode :: "jsstring \<Rightarrow> TestCase list \<Rightarrow> filedata" where
  "wrapCppCode userCode testCases = Generated (CppHarness userCode testCases)"

text \<open>
  \<open>runNodeProcess\<close>, \<open>runPythonProcess\<close> and \<open>runCppProcess\<close> differ in the command and
  its arguments only. The promise settles in the handler of \<open>close\<close> or of \<open>error\<close>
  and nowhere else.
\<close>

definition run_process :: "jsstring \<Rightarrow> jsstring list \<Rightarrow> world \<Rightarrow> jsstring awaited \<times> world" where
  "run_process cmd args w =
     (case spawn cmd args w of
        (out, w') \<Rightarrow>
          (case settled out of
             Closed code \<Rightarrow>
               if code = Some 0 then (Resolved (stdout out), w')
               else (Rejected (new_Error
                       (if stderr out \<noteq> [] then stderr out
                        else js ''Process exited with code '' @ code_to_string code)), w')
           | Errored error \<Rightarrow> (Rejected error, w')
           | Silent \<Rightarrow> (Pending, w')))"

definition runNodeProcess :: "jsstring \<Rightarrow> world \<Rightarrow> jsstring awaited \<times> world" where
  "runNodeProcess filePath w = run_process (js ''node'') [filePath] w"

definition runPythonProcess :: "jsstring \<Rightarrow> world \<Rightarrow> jsstring awaited \<times> world" where
  "runPythonProcess filePath w = run_process (js ''python'') [filePath] w"

definition runCppProcess :: "jsstring \<Rightarrow> world \<Rightarrow> jsstring awaited \<times> world" where
  "runCppProcess executablePath w = run_process executablePath [] w"

definition compileCppCode :: "jsstring \<Rightarrow> jsstring \<Rightarrow> world \<Rightarrow> unit awaited \<times> world" where
  "compileCppCode sourceFile outputFile w =
     (case spawn (js ''g++'') [js ''-o'', outputFile, sourceFile, js ''-std=c++17''] w of
        (out, w') \<Rightarrow>
          (case settled out of
             Closed code \<Rightarrow>
               if code = Some 0 then (Resolved (), w')
               else (Rejected (new_Error
                       (js ''Compilation failed: '' @
                        (if stderr out \<noteq> [] then stderr out
                         else js ''Process exited with code '' @ code_to_string code))), w')
           | Errored error \<Rightarrow>
               (Rejected (new_Error (js ''Compilation error: '' @ err_message error)), w')
           | Silent \<Rightarrow> (Pending, w')))"

text \<open>The result every \<open>catch\<close> block of the executor returns.\<close>

definition execution_error :: "TestCase list \<Rightarrow> js_error \<Rightarrow> JudgeResult" where
  "execution_error testCases error =
     \<lparr> success = False,
       totalTests = length testCases,
       passedTests = 0,
       results = [],
       overallError = Some (js ''Execution error: '' @ error_to_string error) \<rparr>"

definition solution_name :: "nat \<Rightarrow> string \<Rightarrow> jsstring" where
  "solution_name now ext = js ''solution_'' @ nat_to_string now @ js ext"

text \<open>
  The path of an artifact, \<open>join(this.tempDir, `solution_${Date.now()}.ext`)\<close>, as
  a function of the clock reading.
\<close>

definition artifact_path :: "world \<Rightarrow> nat \<Rightarrow> string \<Rightarrow> jsstring" where
  "artifact_path w now ext = join (tempDir w) (solution_name now ext)"

text \<open>
  The \<open>try\<close> block of \<open>executeJavaScript\<close>. An \<open>await\<close> that never continues leaves
  the block, and the function, without a result.
\<close>

definition executeJavaScript_try ::
  "jsstring \<Rightarrow> jsstring \<Rightarrow> TestCase list \<Rightarrow> world \<Rightarrow> JudgeResult awaited \<times> world" where
  "executeJavaScript_try filePath code testCases w =
     (case writeFile filePath (wrapJavaScriptCode code testCases) w of
        (Inl e, w1) \<Rightarrow> (Rejected e, w1)
      | (Inr u1, w1) \<Rightarrow>
          (case runNodeProcess filePath w1 of
             (Rejected e, w2) \<Rightarrow> (Rejected e, w2)
           | (Pending, w2) \<Rightarrow> (Pending, w2)
           | (Resolved result, w2) \<Rightarrow>
               (case unlink filePath w2 of
                  (Inl e, w3) \<Rightarrow> (Rejected e, w3)
                | (Inr u2, w3) \<Rightarrow>
                    (Resolved (parseJudgeOutput (js_engine w3) result testCases), w3))))"

definition executeJavaScript ::
  "jsstring \<Rightarrow> TestCase list \<Rightarrow> world \<Rightarrow> JudgeResult awaited \<times> world" where
  "executeJavaScript code testCases w =
     (case ensureTempDir w of
        (Rejected e, w0) \<Rightarrow> (Rejected e, w0)
      | (Pending, w0) \<Rightarrow> (Pending, w0)
      | (Resolved u, w0) \<Rightarrow>
          (case Date_now w0 of
             (now, w1) \<Rightarrow>
               (case executeJavaScript_try (artifact_path w now ''.js'')
                       code testCases w1 of
                  (Resolved r, w2) \<Rightarrow> (Resolved r, w2)
                | (Pending, w2) \<Rightarrow> (Pending, w2)
                | (Rejected error, w2) \<Rightarrow>
                    (Resolved (execution_error testCases error), w2))))"

definition executePython_try ::
  "jsstring \<Rightarrow> jsstring \<Rightarrow> TestCase list \<Rightarrow> world \<Rightarrow> JudgeResult awaited \<times> world" where
  "executePython_try filePath code testCases w =
     (case writeFile filePath (wrapPythonCode code testCases) w of
        (Inl e, w1) \<Rightarrow> (Rejected e, w1)
      | (Inr u1, w1) \<Rightarrow>
          (case runPythonProcess filePath w1 of
             (Rejected e, w2) \<Rightarrow> (Rejected e, w2)
           | (Pending, w2) \<Rightarrow> (Pending, w2)
           | (Resolved result, w2) \<Rightarrow>
               (case unlink filePath w2 of
                  (Inl e, w3) \<Rightarrow> (Rejected e, w3)
                | (Inr u2, w3) \<Rightarrow>
                    (Resolved (parseJudgeOutput (js_engine w3) result testCases), w3))))"

definition executePython ::
  "jsstring \<Rightarrow> TestCase list \<Rightarrow> world \<Rightarrow> JudgeResult awaited \<times> world" where
  "executePython code testCases w =
     (case ensureTempDir w of
        (Rejected e, w0) \<Rightarrow> (Rejected e, w0)
      | (Pending, w0) \<Rightarrow> (Pending, w0)
      | (Resolved u, w0) \<Rightarrow>
          (case Date_now w0 of
             (now, w1) \<Rightarrow>
               (case executePython_try (artifact_path w now ''.py'')
                       code testCases w1 of
                  (Resolved r, w2) \<Rightarrow> (Resolved r, w2)
                | (Pending, w2) \<Rightarrow> (Pending, w2)
                | (Rejected error, w2) \<Rightarrow>
                    (Resolved (execution_error testCases error), w2))))"

text \<open>
  The \<open>try\<close> block of \<open>executeCpp\<close>. The inner \<open>try\<close> around the second \<open>unlink\<close>
  ignores its error.
\<close>

definition executeCpp_try ::
  "jsstring \<Rightarrow> jsstring \<Rightarrow> jsstring \<Rightarrow> TestCase list \<Rightarrow> world
     \<Rightarrow> JudgeResult awaited \<times> world" where
  "executeCpp_try filePath executablePath code testCases w =
     (case writeFile filePath (wrapCppCode code testCases) w of
        (Inl e, w1) \<Rightarrow> (Rejected e, w1)
      | (Inr u1, w1) \<Rightarrow>
          (case compileCppCode filePath executablePath w1 of
             (Rejected e, w2) \<Rightarrow> (Rejected e, w2)
           | (Pending, w2) \<Rightarrow> (Pending, w2)
           | (Resolved u2, w2) \<Rightarrow>
               (case runCppProcess executablePath w2 of
                  (Rejected e, w3) \<Rightarrow> (Rejected e, w3)
                | (Pending, w3) \<Rightarrow> (Pending, w3)
                | (Resolved result, w3) \<Rightarrow>
                    (case unlink filePath w3 of
                       (Inl e, w4) \<Rightarrow> (Rejected e, w4)
                     | (Inr u3, w4) \<Rightarrow>
                         (case unlink executablePath w4 of
                            (ignored, w5) \<Rightarrow>
                              (Resolved (parseJudgeOutput (js_engine w5) result testCases),
                               w5))))))"

definition executeCpp ::
  "jsstring \<Rightarrow> TestCase list \<Rightarrow> world \<Rightarrow> JudgeResult awaited \<times> world" where
  "executeCpp code testCases w =
     (case ensureTempDir w of
        (Rejected e, w0) \<Rightarrow> (Rejected e, w0)
      | (Pending, w0) \<Rightarrow> (Pending, w0)
      | (Resolved u, w0) \<Rightarrow>
          (case Date_now w0 of
             (now1, w1) \<Rightarrow>
               (case Date_now w1 of
                  (now2, w2) \<Rightarrow>
                    (case executeCpp_try (artifact_path w now1 ''.cpp'')
                            (artifact_path w now2 ''.exe'')
                            code testCases w2 of
                       (Resolved r, w3) \<Rightarrow> (Resolved r, w3)
                     | (Pending, w3) \<Rightarrow> (Pending, w3)
                     | (Rejected error, w3) \<Rightarrow>
                         (Resolved (execution_error testCases error), w3)))))"

text \<open>
  The artifacts of an invocation that starts in the world \<open>w\<close>, and what the child
  processes it spawns do: the interpreter on the generated source, the compiler on the
  generated source, and the compiled binary.
\<close>

definition js_path :: "world \<Rightarrow> jsstring" where
  "js_path w = artifact_path w (clock w (reads w)) ''.js''"

definition node_outcome :: "world \<Rightarrow> jsstring \<Rightarrow> TestCase list \<Rightarrow> outcome" where
  "node_outcome w src tcs =
     spawn_outcome w (js ''node'') [js_path w]
       ((files w)(js_path w \<mapsto> wrapJavaScriptCode src tcs))"

definition py_path :: "world \<Rightarrow> jsstring" where
  "py_path w = artifact_path w (clock w (reads w)) ''.py''"

definition python_outcome :: "world \<Rightarrow> jsstring \<Rightarrow> TestCase list \<Rightarrow> outcome" where
  "python_outcome w src tcs =
     spawn_outcome w (js ''python'') [py_path w]
       ((files w)(py_path w \<mapsto> wrapPythonCode src tcs))"

definition cpp_path :: "world \<Rightarrow> jsstring" where
  "cpp_path w = artifact_path w (clock w (reads w)) ''.cpp''"

definition exe_path :: "world \<Rightarrow> jsstring" where
  "exe_path w = artifact_path w (clock w (Suc (reads w))) ''.exe''"

definition compiler_outcome :: "world \<Rightarrow> jsstring \<Rightarrow> TestCase list \<Rightarrow> outcome" where
  "compiler_outcome w src tcs =
     spawn_outcome w (js ''g++'') [js ''-o'', exe_path w, cpp_path w, js ''-std=c++17'']
       ((files w)(cpp_path w \<mapsto> wrapCppCode src tcs))"

definition binary_outcome :: "world \<Rightarrow> jsstring \<Rightarrow> TestCase list \<Rightarrow> outcome" where
  "binary_outcome w src tcs =
     spawn_outcome w (exe_path w) [] (files_after (compiler_outcome w src tcs))"

section \<open>The orchestrator\<close>

text \<open>
  The fields of the request body; a missing field is falsy like \<open>0\<close> and the empty
  string. \<open>language\<close> is declared as one of four literals, but the body is not checked
  against the declaration, so any text can arrive.
\<close>

record SubmissionRequest =
  questionId :: nat
  code :: jsstring
  language :: jsstring

text \<open>
  \<open>questionService.getQuestionById\<close> belongs to another module: what awaiting it gives
  is a parameter, and it is taken to settle. A question may come without \<open>testCases\<close>.
\<close>

datatype lookup =
    LookupRejected js_error
  | NoQuestion
  | Question "TestCase list option"

text \<open>
  The body of a response: \<open>{error}\<close>, \<open>{error, details}\<close>, or the verdict, which is
  \<open>status\<close> with the fields copied from the \<open>JudgeResult\<close> (\<open>accuracy\<close>,
  \<open>executionTime\<close> and \<open>timestamp\<close> are left out).
\<close>

datatype body =
    ErrorBody jsstring
  | ErrorDetails jsstring jsstring
  | Verdict jsstring JudgeResult

datatype response = Response nat body

text \<open>
  What the handler does with what awaiting the executor gave: the verdict, the response
  of the outer \<open>catch\<close>, or no response at all when the \<open>await\<close> never continues.
\<close>

definition respond :: "JudgeResult awaited \<times> world \<Rightarrow> response option \<times> world" where
  "respond x =
     (case x of
        (Resolved judgeResult, w) \<Rightarrow>
          (Some (Response 200
             (Verdict (if passedTests judgeResult = totalTests judgeResult
                       then js ''Accepted'' else js ''Wrong Answer'')
                      judgeResult)), w)
      | (Rejected error, w) \<Rightarrow>
          (Some (Response 500
             (ErrorDetails (js ''Internal server error during code execution'')
                           (err_message error))), w)
      | (Pending, w) \<Rightarrow> (None, w))"

text \<open>
  The handler up to the end of its \<open>switch\<close>: \<open>Inl\<close> the response of an early
  \<open>return\<close>, or \<open>Inr\<close> how the awaited calls ended: the \<open>JudgeResult\<close> the executor
  that was called resolved to, or the error the lookup or the executor rejected with,
  which the outer \<open>catch\<close> receives.
\<close>

definition judge_dispatch ::
  "(nat \<Rightarrow> lookup) \<Rightarrow> SubmissionRequest \<Rightarrow> world
     \<Rightarrow> (response + JudgeResult awaited) \<times> world" where
  "judge_dispatch getQuestionById req w =
     (if questionId req = 0 \<or> code req = [] \<or> language req = [] then
        (Inl (Response 400
           (ErrorBody (js ''Missing required fields: questionId, code, language''))), w)
      else
        (case getQuestionById (questionId req) of
           LookupRejected error \<Rightarrow> (Inr (Rejected error), w)
         | NoQuestion \<Rightarrow> (Inl (Response 404 (ErrorBody (js ''Question not found''))), w)
         | Question None \<Rightarrow>
             (Inl (Response 400
                (ErrorBody (js ''No test cases available for this question''))), w)
         | Question (Some testCases) \<Rightarrow>
             if testCases = [] then
               (Inl (Response 400
                  (ErrorBody (js ''No test cases available for this question''))), w)
             else if language req = js ''javascript'' then
               apfst Inr (executeJavaScript (code req) testCases w)
             else if language req = js ''python'' then
               apfst Inr (executePython (code req) testCases w)
             else if language req = js ''cpp'' then
               apfst Inr (executeCpp (code req) testCases w)
             else if language req = js ''java'' then
               (Inl (Response 501 (ErrorBody (js ''Java execution not yet implemented''))), w)
             else (Inl (Response 400 (ErrorBody (js ''Unsupported language''))), w)))"

text \<open>
  The whole handler: the response it sends, if it sends one, and the world it leaves.
\<close>

definition judgeSubmission ::
  "(nat \<Rightarrow> lookup) \<Rightarrow> SubmissionRequest \<Rightarrow> world \<Rightarrow> response option \<times> world" where
  "judgeSubmission getQuestionById req w =
     (case judge_dispatch getQuestionById req w of
        (Inl early, w') \<Rightarrow> (Some early, w')
      | (Inr x, w') \<Rightarrow> respond (x, w'))"

section \<open>The generated JavaScript harness\<close>




















section \<open>Concrete worlds and the words of the specification\<close>

text \<open>
  An engine that throws the same error for every fault. The examples below raise one
  fault only, \<open>JSON.parse\<close> of the empty text, for which Node throws this error.
\<close>

definition engine_saying :: "js_error \<Rightarrow> engine" where
  "engine_saying e fault = e"

definition end_of_input :: js_error where
  "end_of_input = JsError (js ''SyntaxError'') (js ''Unexpected end of JSON input'')"

text \<open>
  A world with an empty disk in which no file operation fails, the clock reads 1000 at
  every call, and every child process settles as given after writing the given texts,
  leaving the files as they are.
\<close>

definition world_with :: "settle \<Rightarrow> jsstring \<Rightarrow> jsstring \<Rightarrow> world" where
  "world_with s out err =
     \<lparr> files = Map.empty,
       clock = (\<lambda>k. 1000),
       reads = 0,
       spawned = [],
       tmpdir = js ''/tmp'',
       mkdir_error = (\<lambda>p. None),
       writeFile_error = (\<lambda>p. None),
       unlink_error = (\<lambda>p. None),
       no_such_file = (\<lambda>p. new_Error (js ''ENOENT: no such file or directory'')),
       spawn_outcome = (\<lambda>cmd args fs.
         \<lparr> settled = s, stdout = out, stderr = err, files_after = fs \<rparr>),
       js_engine = engine_saying end_of_input \<rparr>"

text \<open>The world in which every child process exits with the given code.\<close>

definition world_of :: "int \<Rightarrow> jsstring \<Rightarrow> jsstring \<Rightarrow> world" where
  "world_of exit_code out err = world_with (Closed (Some exit_code)) out err"

definition one_test :: TestCase where
  "one_test = \<lparr> input = js ''5'', expectedOutput = js ''8'', explanation = [] \<rparr>"

text \<open>The paths the executor builds when the clock reads 1000 and the directory is \<open>/tmp\<close>.\<close>

definition cpp_source_1000 :: jsstring where
  "cpp_source_1000 = js ''/tmp/coding-judge/solution_1000.cpp''"

definition cpp_binary_1000 :: jsstring where
  "cpp_binary_1000 = js ''/tmp/coding-judge/solution_1000.exe''"

definition js_source_1000 :: jsstring where
  "js_source_1000 = js ''/tmp/coding-judge/solution_1000.js''"

definition py_source_1000 :: jsstring where
  "py_source_1000 = js ''/tmp/coding-judge/solution_1000.py''"



definition java_request :: SubmissionRequest where
  "java_request = \<lparr> questionId = 1, code = js ''class A {}'', language = js ''java'' \<rparr>"

text \<open>
  A Python program that ignores the termination signal and loops; a C++ program that
  does the same takes \<open>signal(SIGTERM, SIG_IGN)\<close> and \<open>for (;;) {}\<close>.
\<close>

definition deaf_loop :: jsstring where
  "deaf_loop = js ''import signal\<newline>signal.signal(signal.SIGTERM, signal.SIG_IGN)\<newline>while True: pass''"

text \<open>
  An output in which the prefix does not begin a line: the program wrote a character
  without a line break before the result line was printed.
\<close>

definition sneaked_output :: jsstring where
  "sneaked_output = js ''xJUDGE_RESULT:[]\<newline>''"

text \<open>The entries the specification counts: those whose \<open>passed\<close> is \<open>true\<close>.\<close>

definition passed_is_true :: "json \<Rightarrow> bool" where
  "passed_is_true r \<longleftrightarrow> passed_of r = Some (JBool True)"

text \<open>The entries the code counts: those whose \<open>passed\<close> is truthy.\<close>

definition passed_is_truthy :: "json \<Rightarrow> bool" where
  "passed_is_truthy r \<longleftrightarrow> truthy (passed_of r)"

text \<open>
  The lines of a text, and the specification's sentinel lines: the remainders of the
  lines that begin with the prefix.
\<close>

fun split_lines :: "jsstring \<Rightarrow> jsstring list" where
  "split_lines [] = [[]]"
| "split_lines (c # cs) =
     (if is_line_terminator c then [] # split_lines cs
      else (case split_lines cs of
              [] \<Rightarrow> [[c]]
            | l # ls \<Rightarrow> (c # l) # ls))"

definition spec_sentinel_lines :: "jsstring \<Rightarrow> jsstring list" where
  "spec_sentinel_lines output =
     map (drop 13) (filter (\<lambda>l. take 13 l = js ''JUDGE_RESULT:'') (split_lines output))"

text \<open>
  The counts of a \<open>JudgeResult\<close> as the specification words them.
\<close>

definition spec_counts_hold :: "JudgeResult \<Rightarrow> TestCase list \<Rightarrow> bool" where
  "spec_counts_hold r tcs \<longleftrightarrow>
     passedTests r = length (filter passed_is_true (results r))
     \<and> passedTests r \<le> totalTests r \<and> totalTests r = length tcs"

text \<open>
  Two lines a submitted program can print on its standard output before it exits, or
  before the harness prints its own line.
\<close>

definition forged_counts :: jsstring where
  \<open>forged_counts = js ''JUDGE_RESULT:[{"passed":1},{"passed":true}]\<newline>''\<close>

definition forged_indices :: jsstring where
  \<open>forged_indices = js ''JUDGE_RESULT:[{"testCaseIndex":7},{"testCaseIndex":7}]\<newline>''\<close>

text \<open>
  The sentinel the code reads: the first place where the prefix is followed by a
  character of the same line; \<open>payload\<close> is the rest of that line.
\<close>

definition first_sentinel :: "jsstring \<Rightarrow> jsstring \<Rightarrow> jsstring \<Rightarrow> jsstring \<Rightarrow> bool" where
  "first_sentinel output pre payload post \<longleftrightarrow>
     output = pre @ js ''JUDGE_RESULT:'' @ payload @ post
     \<and> payload \<noteq> []
     \<and> (\<forall>c \<in> set payload. \<not> is_line_terminator c)
     \<and> (post = [] \<or> is_line_terminator (hd post))
     \<and> (\<forall>pre' c post'. output = pre' @ js ''JUDGE_RESULT:'' @ c # post' \<and> \<not> is_line_terminator c
            \<longrightarrow> length pre \<le> length pre')"

text \<open>
  The array the sentinel payload of a text decodes to, if there is a payload and it is
  the JSON text of an array.
\<close>

definition decoded_results :: "jsstring \<Rightarrow> json list option" where
  "decoded_results output =
     (case judgeResultMatch output of
        None \<Rightarrow> None
      | Some payload \<Rightarrow>
          (case JSON_parse payload of
             Some (JArray rs) \<Rightarrow> Some rs
           | _ \<Rightarrow> None))"





section \<open>Properties of the result parser\<close>

lemma filter_passed_eq:
  "filter_passed eng rs = Inr ks \<Longrightarrow> ks = filter passed_is_truthy rs"
  by (induction rs arbitrary: ks)
     (auto simp: passed_is_truthy_def get_passed_def split: sum.splits if_splits)

lemma filter_passed_null:
  "(\<exists>e. filter_passed eng rs = Inl e) \<longleftrightarrow> JNull \<in> set rs"
  by (induction rs) (auto simp: get_passed_def split: sum.splits)

lemma parse_try_Inr:
  "parseJudgeOutput_try eng out tcs = Inr r \<longleftrightarrow>
     (\<exists>payload rs. judgeResultMatch out = Some payload \<and> JSON_parse payload = Some (JArray rs)
        \<and> JNull \<notin> set rs
        \<and> r = \<lparr> success = True, totalTests = length tcs,
                 passedTests = length (filter passed_is_truthy rs),
                 results = rs, overallError = None \<rparr>)"
  (is "?L \<longleftrightarrow> ?R")
proof
  assume ?L
  then obtain payload rs ks where m: "judgeResultMatch out = Some payload"
    and p: "JSON_parse payload = Some (JArray rs)" and f: "filter_passed eng rs = Inr ks"
    and r: "r = \<lparr> success = True, totalTests = length tcs, passedTests = length ks,
                 results = rs, overallError = None \<rparr>"
    by (auto simp: parseJudgeOutput_try_def split: option.splits json.splits sum.splits)
  from f have "JNull \<notin> set rs" using filter_passed_null[of eng rs] by auto
  with m p r filter_passed_eq[OF f] show ?R by auto
next
  assume ?R
  then obtain payload rs where m: "judgeResultMatch out = Some payload"
    and p: "JSON_parse payload = Some (JArray rs)" and n: "JNull \<notin> set rs"
    and r: "r = \<lparr> success = True, totalTests = length tcs,
                 passedTests = length (filter passed_is_truthy rs),
                 results = rs, overallError = None \<rparr>"
    by blast
  from n obtain ks where f: "filter_passed eng rs = Inr ks"
    using filter_passed_null[of eng rs] by (cases "filter_passed eng rs") auto
  with m p r filter_passed_eq[OF f] show ?L
    by (simp add: parseJudgeOutput_try_def)
qed

lemma parse_failure:
  "parseJudgeOutput_try eng out tcs = Inl e \<Longrightarrow>
     parseJudgeOutput eng out tcs =
       \<lparr> success = False, totalTests = length tcs, passedTests = 0, results = [],
         overallError = Some (js ''Failed to parse results: '' @ error_to_string e) \<rparr>"
  by (simp add: parseJudgeOutput_def)

lemma parse_success:
  "parseJudgeOutput_try eng out tcs = Inr r \<Longrightarrow> parseJudgeOutput eng out tcs = r"
  by (simp add: parseJudgeOutput_def)

lemma parse_invariants:
  "totalTests (parseJudgeOutput eng out tcs) = length tcs"
  "passedTests (parseJudgeOutput eng out tcs)
     = length (filter passed_is_truthy (results (parseJudgeOutput eng out tcs)))"
  "success (parseJudgeOutput eng out tcs)
     \<or> (passedTests (parseJudgeOutput eng out tcs) = 0
        \<and> results (parseJudgeOutput eng out tcs) = []
        \<and> overallError (parseJudgeOutput eng out tcs) \<noteq> None)"
  by (cases "parseJudgeOutput_try eng out tcs";
      auto simp: parse_failure parse_success parse_try_Inr)+

lemma parse_success_try:
  "success (parseJudgeOutput eng out tcs) \<Longrightarrow>
     parseJudgeOutput_try eng out tcs = Inr (parseJudgeOutput eng out tcs)"
  by (cases "parseJudgeOutput_try eng out tcs") (auto simp: parse_failure parse_success)

lemma parse_decoded:
  "parseJudgeOutput_try eng out tcs = Inr r \<Longrightarrow>
     decoded_results out = Some (results r) \<and> JNull \<notin> set (results r)
     \<and> totalTests r = length tcs \<and> overallError r = None"
  unfolding parse_try_Inr by (auto simp: decoded_results_def)

lemma decoded_parse:
  assumes "decoded_results out = Some rs" and "JNull \<notin> set rs"
  shows "parseJudgeOutput eng out tcs =
     \<lparr> success = True, totalTests = length tcs,
       passedTests = length (filter passed_is_truthy rs), results = rs, overallError = None \<rparr>"
proof -
  from assms(1) obtain payload where "judgeResultMatch out = Some payload"
    "JSON_parse payload = Some (JArray rs)"
    by (auto simp: decoded_results_def split: option.splits json.splits)
  with assms(2) have "parseJudgeOutput_try eng out tcs =
     Inr \<lparr> success = True, totalTests = length tcs,
       passedTests = length (filter passed_is_truthy rs), results = rs, overallError = None \<rparr>"
    unfolding parse_try_Inr by blast
  then show ?thesis by (rule parse_success)
qed

lemma prefix_len: "length (js ''JUDGE_RESULT:'') = 13"
  by (simp add: js_def)

lemma take13_iff: "take 13 s = js ''JUDGE_RESULT:'' \<longleftrightarrow> (\<exists>rest. s = js ''JUDGE_RESULT:'' @ rest)"
proof
  assume "take 13 s = js ''JUDGE_RESULT:''"
  then have "s = js ''JUDGE_RESULT:'' @ drop 13 s"
    by (metis append_take_drop_id)
  then show "\<exists>rest. s = js ''JUDGE_RESULT:'' @ rest" ..
next
  assume "\<exists>rest. s = js ''JUDGE_RESULT:'' @ rest"
  then show "take 13 s = js ''JUDGE_RESULT:''"
    using prefix_len by auto
qed

lemma takeWhile_line:
  "\<exists>post. rest = takeWhile (\<lambda>x. \<not> is_line_terminator x) rest @ post
      \<and> (post = [] \<or> is_line_terminator (hd post))"
proof -
  let ?P = "\<lambda>x. \<not> is_line_terminator x"
  have "rest = takeWhile ?P rest @ dropWhile ?P rest" by simp
  moreover have "dropWhile ?P rest = [] \<or> is_line_terminator (hd (dropWhile ?P rest))"
    using hd_dropWhile[of ?P rest] by blast
  ultimately show ?thesis by blast
qed

lemma match_here:
  "(take 13 s = js ''JUDGE_RESULT:'' \<and> takeWhile (\<lambda>x. \<not> is_line_terminator x) (drop 13 s) \<noteq> [])
     \<longleftrightarrow> (\<exists>c post. s = js ''JUDGE_RESULT:'' @ c # post \<and> \<not> is_line_terminator c)"
proof
  assume a: "take 13 s = js ''JUDGE_RESULT:'' \<and> takeWhile (\<lambda>x. \<not> is_line_terminator x) (drop 13 s) \<noteq> []"
  then obtain rest where s: "s = js ''JUDGE_RESULT:'' @ rest" using take13_iff by blast
  with a have "takeWhile (\<lambda>x. \<not> is_line_terminator x) rest \<noteq> []" by (simp add: prefix_len)
  then obtain c post where "rest = c # post" "\<not> is_line_terminator c"
    by (cases rest) (auto split: if_splits)
  with s show "\<exists>c post. s = js ''JUDGE_RESULT:'' @ c # post \<and> \<not> is_line_terminator c" by blast
next
  assume "\<exists>c post. s = js ''JUDGE_RESULT:'' @ c # post \<and> \<not> is_line_terminator c"
  then obtain c post where s: "s = js ''JUDGE_RESULT:'' @ c # post" and c: "\<not> is_line_terminator c"
    by blast
  then show "take 13 s = js ''JUDGE_RESULT:'' \<and> takeWhile (\<lambda>x. \<not> is_line_terminator x) (drop 13 s) \<noteq> []"
    by (simp add: prefix_len)
qed

lemma jrm_cons:
  "judgeResultMatch (x # xs) =
     (if \<exists>c post. x # xs = js ''JUDGE_RESULT:'' @ c # post \<and> \<not> is_line_terminator c
      then Some (takeWhile (\<lambda>x. \<not> is_line_terminator x) (drop 13 (x # xs)))
      else judgeResultMatch xs)"
  apply (subst judgeResultMatch.simps(2))
  apply (simp only: match_here)
  done

lemma drop_prefix: "s = js ''JUDGE_RESULT:'' @ rest \<Longrightarrow> drop 13 s = rest"
  by (simp add: prefix_len)

lemma judgeResultMatch_None:
  "judgeResultMatch out = None \<longleftrightarrow>
     (\<forall>pre c post. out = pre @ js ''JUDGE_RESULT:'' @ c # post \<longrightarrow> is_line_terminator c)"
proof (induction out)
  case Nil
  then show ?case by (simp add: js_def)
next
  case (Cons x xs)
  let ?here = "\<exists>c post. x # xs = js ''JUDGE_RESULT:'' @ c # post \<and> \<not> is_line_terminator c"
  show ?case
  proof (cases ?here)
    case True
    then have "judgeResultMatch (x # xs) \<noteq> None"
      by (simp only: jrm_cons if_True) simp
    moreover from True have "\<not> (\<forall>pre c post. x # xs = pre @ js ''JUDGE_RESULT:'' @ c # post \<longrightarrow> is_line_terminator c)"
      by (metis append_Nil)
    ultimately show ?thesis by blast
  next
    case False
    then have eq: "judgeResultMatch (x # xs) = judgeResultMatch xs"
      by (simp only: jrm_cons if_False)
    have "(\<forall>pre c post. x # xs = pre @ js ''JUDGE_RESULT:'' @ c # post \<longrightarrow> is_line_terminator c)
        \<longleftrightarrow> (\<forall>pre c post. xs = pre @ js ''JUDGE_RESULT:'' @ c # post \<longrightarrow> is_line_terminator c)"
      (is "?A \<longleftrightarrow> ?B")
    proof
      assume ?A
      show ?B
      proof (intro allI impI)
        fix pre c post assume "xs = pre @ js ''JUDGE_RESULT:'' @ c # post"
        then have "x # xs = (x # pre) @ js ''JUDGE_RESULT:'' @ c # post" by simp
        with \<open>?A\<close> show "is_line_terminator c" by blast
      qed
    next
      assume ?B
      show ?A
      proof (intro allI impI)
        fix pre c post assume h: "x # xs = pre @ js ''JUDGE_RESULT:'' @ c # post"
        show "is_line_terminator c"
        proof (cases pre)
          case Nil
          with h False show ?thesis by auto
        next
          case (Cons y ys)
          with h have "xs = ys @ js ''JUDGE_RESULT:'' @ c # post" by simp
          with \<open>?B\<close> show ?thesis by blast
        qed
      qed
    qed
    with Cons.IH eq show ?thesis by simp
  qed
qed

lemma judgeResultMatch_Some:
  "judgeResultMatch out = Some payload \<longleftrightarrow> (\<exists>pre post. first_sentinel out pre payload post)"
proof (induction out)
  case Nil
  then show ?case by (simp add: first_sentinel_def js_def)
next
  case (Cons x xs)
  let ?P = "\<lambda>x. \<not> is_line_terminator x"
  let ?here = "\<exists>c post. x # xs = js ''JUDGE_RESULT:'' @ c # post \<and> \<not> is_line_terminator c"
  show ?case
  proof (cases ?here)
    case True
    then obtain c0 post0 where s: "x # xs = js ''JUDGE_RESULT:'' @ c0 # post0" and c0: "?P c0"
      by blast
    define cap where "cap = takeWhile ?P (c0 # post0)"
    have val: "judgeResultMatch (x # xs) = Some cap"
      using True drop_prefix[OF s] by (simp only: jrm_cons if_True cap_def)
    obtain post where post: "c0 # post0 = cap @ post" "post = [] \<or> is_line_terminator (hd post)"
      using takeWhile_line[of "c0 # post0"] cap_def by auto
    have capne: "cap \<noteq> []" using c0 by (simp add: cap_def)
    have capok: "\<forall>c \<in> set cap. ?P c" unfolding cap_def by (metis set_takeWhileD)
    have fs: "first_sentinel (x # xs) [] cap post"
      using s post capne capok by (simp add: first_sentinel_def)
    have uniq: "payload = cap" if "first_sentinel (x # xs) pre payload post'" for pre post'
    proof -
      from that s c0 have "length pre \<le> length ([]::jsstring)"
        unfolding first_sentinel_def by (metis append_Nil)
      then have pre: "pre = []" by simp
      with that have e: "x # xs = js ''JUDGE_RESULT:'' @ payload @ post'"
        and ok: "\<forall>c \<in> set payload. ?P c" and pe: "post' = [] \<or> is_line_terminator (hd post')"
        by (auto simp: first_sentinel_def)
      from e s have "c0 # post0 = payload @ post'" by simp
      then have "cap = takeWhile ?P (payload @ post')" by (simp add: cap_def)
      also have "\<dots> = payload @ takeWhile ?P post'"
        using ok by (simp add: takeWhile_append2)
      also have "takeWhile ?P post' = []"
        using pe by (cases post') auto
      finally show ?thesis by simp
    qed
    show ?thesis using val fs uniq by auto
  next
    case False
    then have eq: "judgeResultMatch (x # xs) = judgeResultMatch xs"
      by (simp only: jrm_cons if_False)
    have "(\<exists>pre post. first_sentinel (x # xs) pre payload post)
        \<longleftrightarrow> (\<exists>pre post. first_sentinel xs pre payload post)" (is "?A \<longleftrightarrow> ?B")
    proof
      assume ?A
      then obtain pre post where f: "first_sentinel (x # xs) pre payload post" by blast
      then obtain c p' where pl: "payload = c # p'" "?P c"
        by (cases payload) (auto simp: first_sentinel_def)
      have "pre \<noteq> []"
      proof
        assume "pre = []"
        with f pl have "x # xs = js ''JUDGE_RESULT:'' @ c # (p' @ post)"
          by (simp add: first_sentinel_def)
        with pl False show False by blast
      qed
      then obtain y ys where pre: "pre = y # ys" by (cases pre) auto
      have "first_sentinel xs ys payload post"
        unfolding first_sentinel_def
      proof (intro conjI allI impI)
        show "xs = ys @ js ''JUDGE_RESULT:'' @ payload @ post"
          using f pre by (simp add: first_sentinel_def)
        show "payload \<noteq> []" using pl by simp
        show "\<forall>c\<in>set payload. ?P c" using f by (simp add: first_sentinel_def)
        show "post = [] \<or> is_line_terminator (hd post)" using f by (simp add: first_sentinel_def)
      next
        fix pre' c post'
        assume "xs = pre' @ js ''JUDGE_RESULT:'' @ c # post' \<and> ?P c"
        then have "x # xs = (x # pre') @ js ''JUDGE_RESULT:'' @ c # post' \<and> ?P c" by simp
        with f have "length pre \<le> length (x # pre')"
          unfolding first_sentinel_def by blast
        then show "length ys \<le> length pre'" using pre by simp
      qed
      then show ?B by blast
    next
      assume ?B
      then obtain pre post where f: "first_sentinel xs pre payload post" by blast
      have "first_sentinel (x # xs) (x # pre) payload post"
        unfolding first_sentinel_def
      proof (intro conjI allI impI)
        show "x # xs = (x # pre) @ js ''JUDGE_RESULT:'' @ payload @ post"
          using f by (simp add: first_sentinel_def)
        show "payload \<noteq> []" using f by (simp add: first_sentinel_def)
        show "\<forall>c\<in>set payload. ?P c" using f by (simp add: first_sentinel_def)
        show "post = [] \<or> is_line_terminator (hd post)" using f by (simp add: first_sentinel_def)
      next
        fix pre' c post'
        assume h: "x # xs = pre' @ js ''JUDGE_RESULT:'' @ c # post' \<and> ?P c"
        show "length (x # pre) \<le> length pre'"
        proof (cases pre')
          case Nil
          with h False show ?thesis by auto
        next
          case (Cons y ys)
          with h have "xs = ys @ js ''JUDGE_RESULT:'' @ c # post' \<and> ?P c" by simp
          with f have "length pre \<le> length ys" unfolding first_sentinel_def by blast
          with Cons show ?thesis by simp
        qed
      qed
      then show ?A by blast
    qed
    with Cons.IH eq show ?thesis by simp
  qed
qed

section \<open>Properties of the executor\<close>

lemma ensureTempDir_Resolved: "\<exists>w'. ensureTempDir w = (Resolved (), w')"
  by (auto simp: ensureTempDir_def mkdir_def split: option.splits)

lemma executeJavaScript_shape:
  "\<exists>x w'. executeJavaScript src tcs w = (x, w')
      \<and> (x = Pending \<or> (\<exists>e. x = Resolved (execution_error tcs e))
          \<or> (\<exists>eng out. x = Resolved (parseJudgeOutput eng out tcs)))"
  using ensureTempDir_Resolved[of w]
  by (auto simp: executeJavaScript_def executeJavaScript_try_def
      split: prod.splits sum.splits awaited.splits)

lemma executePython_shape:
  "\<exists>x w'. executePython src tcs w = (x, w')
      \<and> (x = Pending \<or> (\<exists>e. x = Resolved (execution_error tcs e))
          \<or> (\<exists>eng out. x = Resolved (parseJudgeOutput eng out tcs)))"
  using ensureTempDir_Resolved[of w]
  by (auto simp: executePython_def executePython_try_def
      split: prod.splits sum.splits awaited.splits)

lemma executeCpp_shape:
  "\<exists>x w'. executeCpp src tcs w = (x, w')
      \<and> (x = Pending \<or> (\<exists>e. x = Resolved (execution_error tcs e))
          \<or> (\<exists>eng out. x = Resolved (parseJudgeOutput eng out tcs)))"
  using ensureTempDir_Resolved[of w]
  by (auto simp: executeCpp_def executeCpp_try_def
      split: prod.splits sum.splits awaited.splits)

lemma executor_shape:
  assumes "exec \<in> {executeJavaScript, executePython, executeCpp}"
  shows "\<exists>x w'. exec src tcs w = (x, w')
      \<and> (x = Pending \<or> (\<exists>e. x = Resolved (execution_error tcs e))
          \<or> (\<exists>eng out. x = Resolved (parseJudgeOutput eng out tcs)))"
  using assms executeJavaScript_shape executePython_shape executeCpp_shape by auto

lemma executor_never_rejects:
  assumes "exec \<in> {executeJavaScript, executePython, executeCpp}"
  shows "fst (exec src tcs w) \<noteq> Rejected e"
  using executor_shape[OF assms, of src tcs w] by auto

lemma execution_error_fields:
  "success (execution_error tcs e) = False"
  "totalTests (execution_error tcs e) = length tcs"
  "passedTests (execution_error tcs e) = 0"
  "results (execution_error tcs e) = []"
  "overallError (execution_error tcs e) \<noteq> None"
  by (simp_all add: execution_error_def)

lemma executor_result_cases:
  assumes "exec \<in> {executeJavaScript, executePython, executeCpp}"
    and "fst (exec src tcs w) = Resolved r"
  shows "(\<exists>e. r = execution_error tcs e) \<or> (\<exists>eng out. r = parseJudgeOutput eng out tcs)"
  using executor_shape[OF assms(1), of src tcs w] assms(2) by fastforce

lemma executor_counts:
  assumes "exec \<in> {executeJavaScript, executePython, executeCpp}"
    and "fst (exec src tcs w) = Resolved r"
  shows "totalTests r = length tcs
    \<and> passedTests r = length (filter passed_is_truthy (results r))
    \<and> passedTests r \<le> length (results r)
    \<and> (length (results r) \<le> length tcs \<longrightarrow> passedTests r \<le> totalTests r)
    \<and> (\<not> success r \<longrightarrow> passedTests r = 0)"
proof -
  have a: "totalTests r = length tcs"
    using executor_result_cases[OF assms] parse_invariants(1) execution_error_fields(2) by auto
  have b: "passedTests r = length (filter passed_is_truthy (results r))"
    using executor_result_cases[OF assms] parse_invariants(2)
    by (auto simp: execution_error_fields)
  have c: "\<not> success r \<longrightarrow> passedTests r = 0"
    using executor_result_cases[OF assms] parse_invariants(3)
    by (auto simp: execution_error_fields)
  from b have d: "passedTests r \<le> length (results r)" by simp
  from a d have e: "length (results r) \<le> length tcs \<longrightarrow> passedTests r \<le> totalTests r"
    by linarith
  from a b c d e show ?thesis by blast
qed


lemmas world_simps = world_of_def world_with_def ensureTempDir_def mkdir_def Date_now_def
  writeFile_def unlink_def spawn_def run_process_def runNodeProcess_def runPythonProcess_def
  runCppProcess_def compileCppCode_def tempDir_def artifact_path_def join_def
  solution_name_def

lemma clean_run_js:
  "fst (executeJavaScript src tcs (world_of 0 out err))
     = Resolved (parseJudgeOutput (engine_saying end_of_input) out tcs)"
  by (simp add: executeJavaScript_def executeJavaScript_try_def world_simps Let_def)

lemma failed_run_js:
  "fst (executeJavaScript src tcs (world_of 1 out (js ''boom'')))
     = Resolved (execution_error tcs (new_Error (js ''boom'')))"
  by (simp add: executeJavaScript_def executeJavaScript_try_def world_simps Let_def js_def)

lemmas json_simps = JSON_parse_def js_def is_ws_def is_digit_def is_line_terminator_def
  lex_number_def lex_unsigned_def lex_int_def lex_frac_def lex_exp_def dec_def

lemma forged_counts_parse:
  "parseJudgeOutput eng forged_counts [one_test] =
     \<lparr> success = True, totalTests = 1, passedTests = 2,
       results = [JObject [(js ''passed'', JNumber 1 0)], JObject [(js ''passed'', JBool True)]],
       overallError = None \<rparr>"
  by (simp add: parseJudgeOutput_def parseJudgeOutput_try_def forged_counts_def json_simps
      number_is_zero_def get_passed_def)

lemma forged_indices_parse:
  "parseJudgeOutput eng forged_indices [one_test] =
     \<lparr> success = True, totalTests = 1, passedTests = 0,
       results = [JObject [(js ''testCaseIndex'', JNumber 7 0)],
                  JObject [(js ''testCaseIndex'', JNumber 7 0)]],
       overallError = None \<rparr>"
  by (simp add: parseJudgeOutput_def parseJudgeOutput_try_def forged_indices_def json_simps
      number_is_zero_def get_passed_def)

lemma sneaked_parse:
  "parseJudgeOutput eng sneaked_output [one_test] =
     \<lparr> success = True, totalTests = 1, passedTests = 0, results = [], overallError = None \<rparr>"
  by (simp add: parseJudgeOutput_def parseJudgeOutput_try_def sneaked_output_def json_simps)


lemmas stage_simps = ensureTempDir_def mkdir_def Date_now_def writeFile_def unlink_def
  spawn_def run_process_def runNodeProcess_def runPythonProcess_def runCppProcess_def
  compileCppCode_def tempDir_def artifact_path_def execution_error_def Let_def

lemma js_success_stages:
  assumes "fst (executeJavaScript src tcs w) = Resolved r" and "success r"
  shows "writeFile_error w (js_path w) = None
    \<and> settled (node_outcome w src tcs) = Closed (Some 0)
    \<and> parseJudgeOutput_try (js_engine w) (stdout (node_outcome w src tcs)) tcs = Inr r"
  using assms
  by (auto simp: executeJavaScript_def executeJavaScript_try_def stage_simps js_path_def
      node_outcome_def parse_success_try
      split: option.splits if_splits settle.splits)

lemma py_success_stages:
  assumes "fst (executePython src tcs w) = Resolved r" and "success r"
  shows "writeFile_error w (py_path w) = None
    \<and> settled (python_outcome w src tcs) = Closed (Some 0)
    \<and> parseJudgeOutput_try (js_engine w) (stdout (python_outcome w src tcs)) tcs = Inr r"
  using assms
  by (auto simp: executePython_def executePython_try_def stage_simps py_path_def
      python_outcome_def parse_success_try
      split: option.splits if_splits settle.splits)

lemma cpp_success_stages:
  assumes "fst (executeCpp src tcs w) = Resolved r" and "success r"
  shows "writeFile_error w (cpp_path w) = None
    \<and> settled (compiler_outcome w src tcs) = Closed (Some 0)
    \<and> settled (binary_outcome w src tcs) = Closed (Some 0)
    \<and> parseJudgeOutput_try (js_engine w) (stdout (binary_outcome w src tcs)) tcs = Inr r"
  using assms
  by (auto simp: executeCpp_def executeCpp_try_def stage_simps cpp_path_def exe_path_def
      compiler_outcome_def binary_outcome_def parse_success_try
      split: option.splits if_splits settle.splits)

text \<open>
  Claim C2, as amended. For every \<open>JudgeResult\<close> an executor resolves to:
  \<open>totalTests\<close> is the number of test cases; \<open>passedTests\<close> is the number of entries
  of \<open>results\<close> whose \<open>passed\<close> is truthy, so it is at most the number of entries; it is
  at most \<open>totalTests\<close> when the decoded list has at most that many entries; and it is
  \<open>0\<close> when \<open>success\<close> is false.
\<close>

theorem C2_amended:
  assumes "exec \<in> {executeJavaScript, executePython, executeCpp}"
    and "fst (exec src tcs w) = Resolved r"
  shows "totalTests r = length tcs
    \<and> passedTests r = length (filter passed_is_truthy (results r))
    \<and> passedTests r \<le> length (results r)
    \<and> (length (results r) \<le> length tcs \<longrightarrow> passedTests r \<le> totalTests r)
    \<and> (\<not> success r \<longrightarrow> passedTests r = 0)"
  using executor_counts[OF assms] .

text \<open>
  Claim C2 as stated fails: a program that prints a sentinel line of its own with two
  entries, one with \<open>passed\<close> \<open>1\<close>, and exits is credited two passed tests out of one,
  and only one entry has \<open>passed\<close> \<open>true\<close>.
\<close>

theorem C2_counterexample:
  "fst (executeJavaScript (js ''x'') [one_test] (world_of 0 forged_counts []))
     = Resolved
         \<lparr> success = True, totalTests = 1, passedTests = 2,
           results = [JObject [(js ''passed'', JNumber 1 0)],
                      JObject [(js ''passed'', JBool True)]],
           overallError = None \<rparr>
   \<and> length (filter passed_is_true
        [JObject [(js ''passed'', JNumber 1 0)], JObject [(js ''passed'', JBool True)]]) = 1
   \<and> \<not> spec_counts_hold
        \<lparr> success = True, totalTests = 1, passedTests = 2,
          results = [JObject [(js ''passed'', JNumber 1 0)],
                     JObject [(js ''passed'', JBool True)]],
          overallError = None \<rparr> [one_test]"
  by (simp add: clean_run_js forged_counts_parse spec_counts_hold_def passed_is_true_def js_def)

text \<open>The amended claim at that run.\<close>

theorem C2_witness:
  "totalTests (parseJudgeOutput (engine_saying end_of_input) forged_counts [one_test])
     = length [one_test]
   \<and> passedTests (parseJudgeOutput (engine_saying end_of_input) forged_counts [one_test])
       = length (filter passed_is_truthy
           (results (parseJudgeOutput (engine_saying end_of_input) forged_counts [one_test])))
   \<and> passedTests (parseJudgeOutput (engine_saying end_of_input) forged_counts [one_test]) = 2"
proof -
  have m: "executeJavaScript \<in> {executeJavaScript, executePython, executeCpp}" by simp
  have e: "fst (executeJavaScript (js ''x'') [one_test] (world_of 0 forged_counts []))
             = Resolved (parseJudgeOutput (engine_saying end_of_input) forged_counts [one_test])"
    by (rule clean_run_js)
  show ?thesis
    using C2_amended[OF m e] by (simp add: forged_counts_parse)
qed

text \<open>
  Claim C3. For every \<open>JudgeResult\<close> an executor resolves to, if \<open>success\<close> is false
  then \<open>results\<close> is empty and \<open>overallError\<close> is set.
\<close>

theorem C3_failure_shape:
  assumes "exec \<in> {executeJavaScript, executePython, executeCpp}"
    and "fst (exec src tcs w) = Resolved r"
    and "success r = False"
  shows "results r = [] \<and> overallError r \<noteq> None"
proof -
  from executor_result_cases[OF assms(1,2)] show ?thesis
  proof
    assume "\<exists>e. r = execution_error tcs e"
    then show ?thesis using execution_error_fields(4,5) by auto
  next
    assume "\<exists>eng out. r = parseJudgeOutput eng out tcs"
    then show ?thesis using assms(3) parse_invariants(3) by auto
  qed
qed

text \<open>A run whose child process exits with code 1.\<close>

theorem C3_witness:
  "results (execution_error [one_test] (new_Error (js ''boom''))) = []
   \<and> overallError (execution_error [one_test] (new_Error (js ''boom''))) \<noteq> None"
proof -
  have m: "executeJavaScript \<in> {executeJavaScript, executePython, executeCpp}" by simp
  have e: "fst (executeJavaScript (js ''x'') [one_test] (world_of 1 [] (js ''boom'')))
             = Resolved (execution_error [one_test] (new_Error (js ''boom'')))"
    by (rule failed_run_js)
  have s: "success (execution_error [one_test] (new_Error (js ''boom''))) = False"
    by (simp add: execution_error_def)
  show ?thesis using C3_failure_shape[OF m e s] .
qed

text \<open>
  Claim C4, as amended. For every \<open>JudgeResult\<close> with \<open>success\<close> true that an executor
  resolves to, \<open>totalTests\<close> is the number of test cases, \<open>overallError\<close> is absent, and
  \<open>results\<close> is exactly the array that the sentinel payload of the standard output of
  the child process decodes to (the interpreter run on the generated source, or the
  compiled binary, which closed with exit code 0), and it has no \<open>null\<close> entry. Every such array is taken as it is:
  whatever its length and the \<open>testCaseIndex\<close> of its entries, an output whose payload
  decodes to an array without a \<open>null\<close> entry gives \<open>success\<close> true with that array as
  \<open>results\<close>.
\<close>

theorem C4_amended:
  "(fst (executeJavaScript src tcs w) = Resolved r \<and> success r
      \<longrightarrow> totalTests r = length tcs \<and> overallError r = None \<and> JNull \<notin> set (results r)
        \<and> settled (node_outcome w src tcs) = Closed (Some 0)
        \<and> decoded_results (stdout (node_outcome w src tcs)) = Some (results r))
   \<and> (fst (executePython src tcs w) = Resolved r \<and> success r
      \<longrightarrow> totalTests r = length tcs \<and> overallError r = None \<and> JNull \<notin> set (results r)
        \<and> settled (python_outcome w src tcs) = Closed (Some 0)
        \<and> decoded_results (stdout (python_outcome w src tcs)) = Some (results r))
   \<and> (fst (executeCpp src tcs w) = Resolved r \<and> success r
      \<longrightarrow> totalTests r = length tcs \<and> overallError r = None \<and> JNull \<notin> set (results r)
        \<and> settled (binary_outcome w src tcs) = Closed (Some 0)
        \<and> decoded_results (stdout (binary_outcome w src tcs)) = Some (results r))
   \<and> (decoded_results out = Some rs \<and> JNull \<notin> set rs
      \<longrightarrow> success (parseJudgeOutput eng out tcs) \<and> results (parseJudgeOutput eng out tcs) = rs)"
proof (intro conjI impI)
  assume a: "fst (executeJavaScript src tcs w) = Resolved r \<and> success r"
  then have "parseJudgeOutput_try (js_engine w) (stdout (node_outcome w src tcs)) tcs = Inr r"
    using js_success_stages by blast
  from parse_decoded[OF this]
  show "totalTests r = length tcs" "overallError r = None" "JNull \<notin> set (results r)"
    "decoded_results (stdout (node_outcome w src tcs)) = Some (results r)" by simp_all
  from a show "settled (node_outcome w src tcs) = Closed (Some 0)"
    using js_success_stages by blast
next
  assume a: "fst (executePython src tcs w) = Resolved r \<and> success r"
  then have "parseJudgeOutput_try (js_engine w) (stdout (python_outcome w src tcs)) tcs = Inr r"
    using py_success_stages by blast
  from parse_decoded[OF this]
  show "totalTests r = length tcs" "overallError r = None" "JNull \<notin> set (results r)"
    "decoded_results (stdout (python_outcome w src tcs)) = Some (results r)" by simp_all
  from a show "settled (python_outcome w src tcs) = Closed (Some 0)"
    using py_success_stages by blast
next
  assume a: "fst (executeCpp src tcs w) = Resolved r \<and> success r"
  then have "parseJudgeOutput_try (js_engine w) (stdout (binary_outcome w src tcs)) tcs = Inr r"
    using cpp_success_stages by blast
  from parse_decoded[OF this]
  show "totalTests r = length tcs" "overallError r = None" "JNull \<notin> set (results r)"
    "decoded_results (stdout (binary_outcome w src tcs)) = Some (results r)" by simp_all
  from a show "settled (binary_outcome w src tcs) = Closed (Some 0)"
    using cpp_success_stages by blast
next
  assume "decoded_results out = Some rs \<and> JNull \<notin> set rs"
  then show "success (parseJudgeOutput eng out tcs)" "results (parseJudgeOutput eng out tcs) = rs"
    using decoded_parse[of out rs eng tcs] by simp_all
qed

text \<open>
  Claim C4 as stated fails: a program that prints a sentinel line of its own with two
  entries of index 7 and exits yields a successful result with two entries for one test
  case, the first with \<open>testCaseIndex\<close> 7.
\<close>

theorem C4_counterexample:
  "fst (executeJavaScript (js ''x'') [one_test] (world_of 0 forged_indices []))
     = Resolved
         \<lparr> success = True, totalTests = 1, passedTests = 0,
           results = [JObject [(js ''testCaseIndex'', JNumber 7 0)],
                      JObject [(js ''testCaseIndex'', JNumber 7 0)]],
           overallError = None \<rparr>"
  by (simp add: clean_run_js forged_indices_parse)

lemma forged_indices_decoded:
  "decoded_results forged_indices
     = Some [JObject [(js ''testCaseIndex'', JNumber 7 0)],
             JObject [(js ''testCaseIndex'', JNumber 7 0)]]"
  by (simp add: decoded_results_def forged_indices_def json_simps)

lemma node_outcome_world_of:
  "stdout (node_outcome (world_of c out err) src tcs) = out"
  "settled (node_outcome (world_of c out err) src tcs) = Closed (Some c)"
  by (simp_all add: node_outcome_def world_of_def world_with_def)

text \<open>The amended claim at that run.\<close>

theorem C4_witness:
  "settled (node_outcome (world_of 0 forged_indices []) (js ''x'') [one_test]) = Closed (Some 0)
   \<and> decoded_results (stdout (node_outcome (world_of 0 forged_indices []) (js ''x'') [one_test]))
     = Some [JObject [(js ''testCaseIndex'', JNumber 7 0)],
             JObject [(js ''testCaseIndex'', JNumber 7 0)]]
   \<and> success (parseJudgeOutput (engine_saying end_of_input) forged_indices [one_test])
   \<and> results (parseJudgeOutput (engine_saying end_of_input) forged_indices [one_test])
       = [JObject [(js ''testCaseIndex'', JNumber 7 0)],
          JObject [(js ''testCaseIndex'', JNumber 7 0)]]"
proof -
  have e: "fst (executeJavaScript (js ''x'') [one_test] (world_of 0 forged_indices []))
             = Resolved (parseJudgeOutput (engine_saying end_of_input) forged_indices [one_test])"
    by (rule clean_run_js)
  have s: "success (parseJudgeOutput (engine_saying end_of_input) forged_indices [one_test])"
    by (simp add: forged_indices_parse)
  have n: "JNull \<notin> set [JObject [(js ''testCaseIndex'', JNumber 7 0)],
             JObject [(js ''testCaseIndex'', JNumber 7 0)]]" by simp
  show ?thesis
    using C4_amended[of "js ''x''" "[one_test]" "world_of 0 forged_indices []"
        "parseJudgeOutput (engine_saying end_of_input) forged_indices [one_test]"
        forged_indices
        "[JObject [(js ''testCaseIndex'', JNumber 7 0)],
          JObject [(js ''testCaseIndex'', JNumber 7 0)]]"
        "engine_saying end_of_input"] e s n forged_indices_decoded
    by (simp add: forged_indices_parse node_outcome_world_of)
qed

lemma sneaked_first_sentinel:
  "first_sentinel sneaked_output (js ''x'') (js ''[]'') [10]"
  unfolding first_sentinel_def
proof (intro conjI allI impI)
  fix pre' c post'
  assume a: "sneaked_output = pre' @ js ''JUDGE_RESULT:'' @ c # post' \<and> \<not> is_line_terminator c"
  have "pre' \<noteq> []"
  proof
    assume "pre' = []"
    with a show False by (simp add: sneaked_output_def js_def)
  qed
  then show "length (js ''x'') \<le> length pre'" by (cases pre') (simp_all add: js_def)
qed (simp_all add: sneaked_output_def js_def is_line_terminator_def)

lemma no_result_None: "judgeResultMatch (js ''no result'') = None"
  by (simp add: js_def)

text \<open>
  Claim C5, as amended. For every captured text: when the prefix occurs somewhere in
  the text followed by a character of the same line, and the rest of the line after the
  first such occurrence is the JSON text of an array without a \<open>null\<close> entry, the
  parser returns \<open>success\<close> true with that array as \<open>results\<close>, the number of its
  entries whose \<open>passed\<close> is truthy as \<open>passedTests\<close>, and no \<open>overallError\<close>. In
  every other case the result has \<open>success\<close> false, no passed test, no results and
  \<open>overallError\<close> set.
\<close>

theorem C5_amended:
  "(first_sentinel out pre payload post \<and> JSON_parse payload = Some (JArray rs)
      \<and> JNull \<notin> set rs
      \<longrightarrow> parseJudgeOutput eng out tcs =
            \<lparr> success = True, totalTests = length tcs,
              passedTests = length (filter passed_is_truthy rs),
              results = rs, overallError = None \<rparr>)
   \<and> (\<not> (\<exists>pre payload post rs. first_sentinel out pre payload post
            \<and> JSON_parse payload = Some (JArray rs) \<and> JNull \<notin> set rs)
      \<longrightarrow> \<not> success (parseJudgeOutput eng out tcs)
        \<and> totalTests (parseJudgeOutput eng out tcs) = length tcs
        \<and> passedTests (parseJudgeOutput eng out tcs) = 0
        \<and> results (parseJudgeOutput eng out tcs) = []
        \<and> overallError (parseJudgeOutput eng out tcs) \<noteq> None)"
proof (intro conjI impI)
  assume a: "first_sentinel out pre payload post \<and> JSON_parse payload = Some (JArray rs)
      \<and> JNull \<notin> set rs"
  then have m: "judgeResultMatch out = Some payload"
    using judgeResultMatch_Some[of out payload] by blast
  have "parseJudgeOutput_try eng out tcs = Inr \<lparr> success = True, totalTests = length tcs,
                 passedTests = length (filter passed_is_truthy rs),
                 results = rs, overallError = None \<rparr>"
    unfolding parse_try_Inr using m a by blast
  then show "parseJudgeOutput eng out tcs =
            \<lparr> success = True, totalTests = length tcs,
              passedTests = length (filter passed_is_truthy rs),
              results = rs, overallError = None \<rparr>"
    by (rule parse_success)
next
  assume n: "\<not> (\<exists>pre payload post rs. first_sentinel out pre payload post
            \<and> JSON_parse payload = Some (JArray rs) \<and> JNull \<notin> set rs)"
  show f: "\<not> success (parseJudgeOutput eng out tcs)"
  proof
    assume "success (parseJudgeOutput eng out tcs)"
    then obtain r where "parseJudgeOutput_try eng out tcs = Inr r"
      using parse_success_try by blast
    then obtain payload rs where "judgeResultMatch out = Some payload"
      "JSON_parse payload = Some (JArray rs)" "JNull \<notin> set rs"
      unfolding parse_try_Inr by blast
    then show False using n judgeResultMatch_Some[of out payload] by blast
  qed
  show "totalTests (parseJudgeOutput eng out tcs) = length tcs"
    by (rule parse_invariants(1))
  show "passedTests (parseJudgeOutput eng out tcs) = 0"
    "results (parseJudgeOutput eng out tcs) = []"
    "overallError (parseJudgeOutput eng out tcs) \<noteq> None"
    using f parse_invariants(3)[of eng out tcs] by blast+
qed

text \<open>
  Claim C5 as stated fails: in this text no line begins with the prefix, so the
  sentinel line of the specification is absent, and yet the parser succeeds.
\<close>

theorem C5_counterexample:
  "spec_sentinel_lines sneaked_output = []
   \<and> success (parseJudgeOutput (engine_saying end_of_input) sneaked_output [one_test])"
  by (simp add: sneaked_parse)
     (simp add: spec_sentinel_lines_def sneaked_output_def js_def is_line_terminator_def)

text \<open>
  The amended claim at the text of the counterexample, whose first occurrence of the
  prefix comes after one character, and at a text without the prefix.
\<close>

theorem C5_witness:
  "parseJudgeOutput (engine_saying end_of_input) sneaked_output [one_test]
     = \<lparr> success = True, totalTests = 1, passedTests = 0, results = [], overallError = None \<rparr>
   \<and> \<not> success (parseJudgeOutput (engine_saying end_of_input) (js ''no result'') [one_test])
   \<and> passedTests (parseJudgeOutput (engine_saying end_of_input) (js ''no result'') [one_test]) = 0
   \<and> results (parseJudgeOutput (engine_saying end_of_input) (js ''no result'') [one_test]) = []"
proof -
  have p: "JSON_parse (js ''[]'') = Some (JArray [])" by (simp add: json_simps)
  have n: "\<not> (\<exists>pre payload post rs. first_sentinel (js ''no result'') pre payload post
            \<and> JSON_parse payload = Some (JArray rs) \<and> JNull \<notin> set rs)"
    using judgeResultMatch_Some[of "js ''no result''"] no_result_None by auto
  show ?thesis
    using C5_amended[of sneaked_output "js ''x''" "js ''[]''" "[10]" "[]"
        "engine_saying end_of_input" "[one_test]"]
      C5_amended[of "js ''no result''" "[]" "[]" "[]" "[]"
        "engine_saying end_of_input" "[one_test]"]
      sneaked_first_sentinel p n
    by simp
qed

section \<open>The verdict of the orchestrator\<close>

lemma apfst_Inr_fst: "fst (apfst Inr p) = Inr (fst p)"
  by (cases p) simp



lemma apfst_Inr_snd: "snd (apfst Inr p) = snd p"
  by (cases p) simp

lemma language_texts:
  "js ''javascript'' \<noteq> []" "js ''python'' \<noteq> []" "js ''cpp'' \<noteq> []"
  "js ''javascript'' \<noteq> js ''python''" "js ''javascript'' \<noteq> js ''cpp''"
  "js ''python'' \<noteq> js ''cpp''" "js ''python'' \<noteq> js ''javascript''"
  "js ''cpp'' \<noteq> js ''javascript''" "js ''cpp'' \<noteq> js ''python''"
  by (simp_all add: js_def)







lemma java_not_others:
  "js ''java'' \<noteq> js ''javascript''" "js ''java'' \<noteq> js ''python''" "js ''java'' \<noteq> js ''cpp''"
  "js ''java'' \<noteq> []"
  by (simp_all add: js_def)

text \<open>
  Claim C10, as amended. For every submission whose language is \<open>java\<close>, no
  executor is called and the world is left as it was: no file is written and no process
  is spawned. The response is that of the first check that fails, in the order of the
  handler: 400 when \<open>questionId\<close> or \<open>code\<close> is missing, 500 when the lookup of the
  question rejects, 404 when there is no such question, 400 when the question has no
  test cases; and when all checks pass it is 501 with the error
  \<open>Java execution not yet implemented\<close>, which is neither a verdict nor the 500 of a
  runtime failure.
\<close>

theorem C10_amended:
  assumes "language req = js ''java''"
  shows "snd (judgeSubmission g req w) = w
    \<and> (questionId req = 0 \<or> code req = []
        \<longrightarrow> fst (judgeSubmission g req w)
              = Some (Response 400
                  (ErrorBody (js ''Missing required fields: questionId, code, language''))))
    \<and> (questionId req \<noteq> 0 \<and> code req \<noteq> [] \<and> g (questionId req) = LookupRejected e
        \<longrightarrow> fst (judgeSubmission g req w)
              = Some (Response 500
                  (ErrorDetails (js ''Internal server error during code execution'')
                     (err_message e))))
    \<and> (questionId req \<noteq> 0 \<and> code req \<noteq> [] \<and> g (questionId req) = NoQuestion
        \<longrightarrow> fst (judgeSubmission g req w)
              = Some (Response 404 (ErrorBody (js ''Question not found''))))
    \<and> (questionId req \<noteq> 0 \<and> code req \<noteq> []
          \<and> (g (questionId req) = Question None \<or> g (questionId req) = Question (Some []))
        \<longrightarrow> fst (judgeSubmission g req w)
              = Some (Response 400
                  (ErrorBody (js ''No test cases available for this question''))))
    \<and> (questionId req \<noteq> 0 \<and> code req \<noteq> []
          \<and> g (questionId req) = Question (Some tcs) \<and> tcs \<noteq> []
        \<longrightarrow> fst (judgeSubmission g req w)
              = Some (Response 501 (ErrorBody (js ''Java execution not yet implemented''))))"
  using assms java_not_others
  by (auto simp: judgeSubmission_def judge_dispatch_def respond_def
      split: lookup.splits option.splits)

text \<open>
  Claim C10 as stated fails: a Java submission for a question without test cases is
  answered 400, not 501.
\<close>

theorem C10_counterexample:
  "fst (judgeSubmission (\<lambda>q. Question None) java_request (world_of 0 [] []))
     = Some (Response 400 (ErrorBody (js ''No test cases available for this question'')))"
  by (simp add: judgeSubmission_def judge_dispatch_def java_request_def)
     (simp add: js_def)

text \<open>
  A Java submission for a question with one test case, and one for a question that
  does not exist.
\<close>

theorem C10_witness:
  "snd (judgeSubmission (\<lambda>q. Question (Some [one_test])) java_request (world_of 0 [] []))
     = world_of 0 [] []
   \<and> fst (judgeSubmission (\<lambda>q. Question (Some [one_test])) java_request (world_of 0 [] []))
       = Some (Response 501 (ErrorBody (js ''Java execution not yet implemented'')))
   \<and> fst (judgeSubmission (\<lambda>q. NoQuestion) java_request (world_of 0 [] []))
       = Some (Response 404 (ErrorBody (js ''Question not found'')))"
proof -
  have l: "language java_request = js ''java''" by (simp add: java_request_def)
  have v: "questionId java_request \<noteq> 0 \<and> code java_request \<noteq> []"
    by (simp add: java_request_def js_def)
  show ?thesis
    using C10_amended[OF l, of "\<lambda>q. Question (Some [one_test])" "world_of 0 [] []"
        "new_Error []" "[one_test]"]
      C10_amended[OF l, of "\<lambda>q. NoQuestion" "world_of 0 [] []" "new_Error []" "[]"] v
    by simp
qed

section \<open>Decimal numerals\<close>

lemma nat_to_string_digits: "\<forall>c \<in> set (nat_to_string n). is_digit c"
proof (induction n rule: nat_to_string.induct)
  case (1 n)
  show ?case
  proof (cases "n < 10")
    case True
    then show ?thesis by (subst nat_to_string.simps) (simp add: is_digit_def)
  next
    case False
    have "n mod 10 < 10" by simp
    then have "is_digit (48 + n mod 10)" unfolding is_digit_def by linarith
    with False 1 show ?thesis by (subst nat_to_string.simps) simp
  qed
qed

lemma dec_snoc: "dec (ds @ [c]) = 10 * dec ds + (c - 48)"
  by (simp add: dec_def)

lemma dec_nat_to_string: "dec (nat_to_string n) = n"
proof (induction n rule: nat_to_string.induct)
  case (1 n)
  show ?case
  proof (cases "n < 10")
    case True
    then show ?thesis by (subst nat_to_string.simps) (simp add: dec_def)
  next
    case False
    with 1 have "dec (nat_to_string (n div 10)) = n div 10" by simp
    with False show ?thesis by (subst nat_to_string.simps) (simp add: dec_snoc)
  qed
qed

lemma nat_to_string_inj: "nat_to_string a = nat_to_string b \<Longrightarrow> a = b"
  by (metis dec_nat_to_string)


section \<open>Artifact paths and cleanup\<close>

lemma digits_then_dot:
  assumes "\<forall>c \<in> set ds. is_digit c"
  shows "takeWhile is_digit (ds @ 46 # rest) = ds"
  using assms by (induction ds) (auto simp: is_digit_def)

lemma ext_dot: "ext \<in> {''.js'', ''.py'', ''.cpp'', ''.exe''} \<Longrightarrow> \<exists>rest. js ext = 46 # rest"
  by (auto simp: js_def)

lemma ext_inj:
  "e1 \<in> {''.js'', ''.py'', ''.cpp'', ''.exe''} \<Longrightarrow> e2 \<in> {''.js'', ''.py'', ''.cpp'', ''.exe''}
     \<Longrightarrow> js e1 = js e2 \<Longrightarrow> e1 = e2"
  by (auto simp: js_def)

text \<open>
  Claim C7, as amended. The name of an artifact is built from the clock reading and
  the extension only. Two artifact paths in the same temporary directory are equal
  exactly when the clock readings and the extensions are equal: invocations that read
  different milliseconds get different paths, the source and the executable of one
  \<open>executeCpp\<close> call differ, and two invocations of the same executor that read the
  same millisecond get the same path.
\<close>

theorem C7_amended:
  assumes "e1 \<in> {''.js'', ''.py'', ''.cpp'', ''.exe''}"
    and "e2 \<in> {''.js'', ''.py'', ''.cpp'', ''.exe''}"
  shows "artifact_path w t1 e1 = artifact_path w t2 e2 \<longleftrightarrow> t1 = t2 \<and> e1 = e2"
proof
  assume "artifact_path w t1 e1 = artifact_path w t2 e2"
  then have eq: "nat_to_string t1 @ js e1 = nat_to_string t2 @ js e2"
    by (simp add: artifact_path_def join_def solution_name_def)
  obtain r1 r2 where r: "js e1 = 46 # r1" "js e2 = 46 # r2"
    using ext_dot[OF assms(1)] ext_dot[OF assms(2)] by blast
  have "takeWhile is_digit (nat_to_string t1 @ js e1) = nat_to_string t1"
    using digits_then_dot[OF nat_to_string_digits] r by simp
  moreover have "takeWhile is_digit (nat_to_string t2 @ js e2) = nat_to_string t2"
    using digits_then_dot[OF nat_to_string_digits] r by simp
  ultimately have n: "nat_to_string t1 = nat_to_string t2" using eq by simp
  with eq have "js e1 = js e2" by simp
  with n show "t1 = t2 \<and> e1 = e2"
    using nat_to_string_inj ext_inj[OF assms] by blast
next
  assume "t1 = t2 \<and> e1 = e2"
  then show "artifact_path w t1 e1 = artifact_path w t2 e2" by simp
qed

text \<open>
  Different readings, and the two artifacts of one compiled run.
\<close>

theorem C7_witness:
  "artifact_path (world_of 0 [] []) 1000 ''.cpp'' \<noteq> artifact_path (world_of 0 [] []) 1001 ''.cpp''
   \<and> artifact_path (world_of 0 [] []) 1000 ''.cpp'' \<noteq> artifact_path (world_of 0 [] []) 1000 ''.exe''"
  using C7_amended[of "''.cpp''" "''.cpp''" "world_of 0 [] []" 1000 1001]
    C7_amended[of "''.cpp''" "''.exe''" "world_of 0 [] []" 1000 1000]
  by simp

lemma nat_to_string_1000: "nat_to_string 1000 = js ''1000''"
  by (simp add: nat_to_string.simps js_def)

lemma paths_1000:
  assumes "tmpdir w = js ''/tmp''"
  shows "artifact_path w 1000 ''.cpp'' = cpp_source_1000"
    and "artifact_path w 1000 ''.exe'' = cpp_binary_1000"
    and "artifact_path w 1000 ''.js'' = js_source_1000"
    and "artifact_path w 1000 ''.py'' = py_source_1000"
  using assms
  by (simp_all add: artifact_path_def join_def solution_name_def tempDir_def
      nat_to_string_1000 cpp_source_1000_def cpp_binary_1000_def js_source_1000_def py_source_1000_def js_def)

text \<open>
  Claim C7 as stated fails: two \<open>executeCpp\<close> invocations, for different programs,
  whose clock readings are the same millisecond compile the same source path to the same
  executable path and run that path.
\<close>

theorem C7_counterexample:
  "spawned (snd (executeCpp (js ''b'') [one_test]
      (snd (executeCpp (js ''a'') [one_test] (world_of 0 [] [])))))
   = [(js ''g++'', [js ''-o'', cpp_binary_1000, cpp_source_1000, js ''-std=c++17'']),
      (cpp_binary_1000, []),
      (js ''g++'', [js ''-o'', cpp_binary_1000, cpp_source_1000, js ''-std=c++17'']),
      (cpp_binary_1000, [])]"
  by (simp add: executeCpp_def executeCpp_try_def ensureTempDir_def mkdir_def Date_now_def
      writeFile_def unlink_def spawn_def run_process_def runCppProcess_def compileCppCode_def
      paths_1000 Let_def world_of_def world_with_def)


text \<open>
  Claim C6 fails on the code. The submitted program exits with code 1: \<open>runNodeProcess\<close>
  rejects, the \<open>catch\<close> block returns, and the \<open>unlink\<close> after the run is skipped.
  The generated source, which was not on disk before, is still there when
  \<open>executeJavaScript\<close> has resolved.
\<close>

theorem C6_leftover_source:
  "files (world_of 1 [] (js ''boom'')) js_source_1000 = None
   \<and> fst (executeJavaScript (js ''process.exit(1)'') [one_test] (world_of 1 [] (js ''boom'')))
       = Resolved (execution_error [one_test] (new_Error (js ''boom'')))
   \<and> files (snd (executeJavaScript (js ''process.exit(1)'') [one_test]
               (world_of 1 [] (js ''boom'')))) js_source_1000
       = Some (wrapJavaScriptCode (js ''process.exit(1)'') [one_test])"
  by (simp add: executeJavaScript_def executeJavaScript_try_def ensureTempDir_def mkdir_def
      Date_now_def writeFile_def unlink_def spawn_def run_process_def runNodeProcess_def
      paths_1000 Let_def world_of_def world_with_def)
     (simp add: js_def)

section \<open>A child process that never closes\<close>

lemma silent_run:
  "settled (spawn_outcome w cmd args (files w)) = Silent \<Longrightarrow>
     fst (run_process cmd args w) = Pending"
  by (simp add: run_process_def spawn_def Let_def)

lemma js_pending_iff:
  "fst (executeJavaScript src tcs w) = Pending \<longleftrightarrow>
     writeFile_error w (js_path w) = None \<and> settled (node_outcome w src tcs) = Silent"
  by (auto simp: executeJavaScript_def executeJavaScript_try_def stage_simps js_path_def
      node_outcome_def split: option.splits if_splits settle.splits)

lemma py_pending_iff:
  "fst (executePython src tcs w) = Pending \<longleftrightarrow>
     writeFile_error w (py_path w) = None \<and> settled (python_outcome w src tcs) = Silent"
  by (auto simp: executePython_def executePython_try_def stage_simps py_path_def
      python_outcome_def split: option.splits if_splits settle.splits)

lemma cpp_pending_iff:
  "fst (executeCpp src tcs w) = Pending \<longleftrightarrow>
     writeFile_error w (cpp_path w) = None
     \<and> (settled (compiler_outcome w src tcs) = Silent
        \<or> settled (compiler_outcome w src tcs) = Closed (Some 0)
          \<and> settled (binary_outcome w src tcs) = Silent)"
  by (auto simp: executeCpp_def executeCpp_try_def stage_simps cpp_path_def exe_path_def
      compiler_outcome_def binary_outcome_def split: option.splits if_splits settle.splits)

lemma executor_returns:
  assumes "exec \<in> {executeJavaScript, executePython, executeCpp}"
    and "fst (exec src tcs w) \<noteq> Pending"
  shows "\<exists>r. fst (exec src tcs w) = Resolved r \<and> (success r \<or> overallError r \<noteq> None)"
proof -
  from executor_shape[OF assms(1), of src tcs w] assms(2)
  obtain r where r: "fst (exec src tcs w) = Resolved r"
    and c: "(\<exists>e. r = execution_error tcs e) \<or> (\<exists>eng out. r = parseJudgeOutput eng out tcs)"
    by fastforce
  from c have "success r \<or> overallError r \<noteq> None"
    using parse_invariants(3) execution_error_fields(5) by auto
  with r show ?thesis by blast
qed

text \<open>
  Claim C8 fails on the code for the timeout class. The submitted program ignores the
  one \<open>SIGTERM\<close> that the \<open>timeout\<close> option of \<open>spawn\<close> sends and goes on looping:
  the child delivers neither \<open>close\<close> nor \<open>error\<close>, the promise of the runner never
  settles, and \<open>executePython\<close> returns no \<open>JudgeResult\<close>; the handler sends no
  response, and the generated source stays on disk.
\<close>

theorem C8_never_returns:
  "fst (executePython deaf_loop [one_test] (world_with Silent [] [])) = Pending
   \<and> fst (judgeSubmission (\<lambda>q. Question (Some [one_test]))
           \<lparr> questionId = 1, code = deaf_loop, language = js ''python'' \<rparr>
           (world_with Silent [] [])) = None
   \<and> files (snd (executePython deaf_loop [one_test] (world_with Silent [] []))) py_source_1000
       = Some (wrapPythonCode deaf_loop [one_test])"
proof -
  have a: "fst (executePython deaf_loop [one_test] (world_with Silent [] [])) = Pending"
    by (simp add: executePython_def executePython_try_def ensureTempDir_def mkdir_def
      Date_now_def writeFile_def unlink_def spawn_def run_process_def runPythonProcess_def
      Let_def world_with_def)
  have b: "files (snd (executePython deaf_loop [one_test] (world_with Silent [] [])))
             py_source_1000 = Some (wrapPythonCode deaf_loop [one_test])"
    by (simp add: executePython_def executePython_try_def ensureTempDir_def mkdir_def
      Date_now_def writeFile_def unlink_def spawn_def run_process_def runPythonProcess_def
      paths_1000 Let_def world_with_def)
  have c: "deaf_loop \<noteq> []" by (simp add: deaf_loop_def js_def)
  have d: "fst (judgeSubmission (\<lambda>q. Question (Some [one_test]))
           \<lparr> questionId = 1, code = deaf_loop, language = js ''python'' \<rparr>
           (world_with Silent [] [])) = None"
    using a c language_texts
    by (cases "executePython deaf_loop [one_test] (world_with Silent [] [])")
       (simp add: judgeSubmission_def judge_dispatch_def respond_def)
  from a b d show ?thesis by blast
qed

section \<open>Properties of the generated JavaScript harness\<close>









end
